theory Spec2Isabelle
  imports Main
begin

section \<open>Shared vocabulary\<close>

text \<open>
  Go's \<^verbatim>\<open>error\<close> values are modelled by their message; a nil error is \<open>None\<close>.
  Handles stand for the pointers the libraries hand out (\<^verbatim>\<open>*amqp.Connection\<close>,
  \<^verbatim>\<open>*amqp.Channel\<close>, \<^verbatim>\<open>*os.File\<close>); a nil pointer is \<open>None\<close>.
\<close>

type_synonym error = string
type_synonym handle = nat

text \<open>
  How a call ends for the hosting process: it returns to its caller, it terminates the
  process (\<^verbatim>\<open>os.Exit(n)\<close>; \<^verbatim>\<open>log.Fatalf\<close> is a print followed by \<^verbatim>\<open>os.Exit(1)\<close>),
  it panics, or the Go runtime ends the process with a fatal error.
\<close>

datatype 'a outcome = Returned 'a | Exited int | Panicked | Crashed

text \<open>
  The answer of a library call of Go type \<^verbatim>\<open>(*T, error)\<close>. With a nil error the pointer
  is valid; with an error the pointer that comes along may be nil or not
  (\<^verbatim>\<open>amqp.Dial\<close> hands back the half-opened connection when the handshake fails).
\<close>

datatype goresult = Opened handle | Failed "handle option" error

section \<open>pkg/adapter/rabbitmq/rabbitmq.go\<close>

subsection \<open>Configuration and the process environment\<close>

text \<open>
  The two fields of \<^verbatim>\<open>config.Config\<close> that this file reads and writes. \<^verbatim>\<open>int\<close> is
  the 64-bit Go integer; every value stored here comes from \<open>Atoi\<close> or from the caller.
\<close>

record Config =
  RMQ_URI :: string
  RMQ_MAXX_RECONNECT_TIMES :: int

type_synonym environ = "string \<rightharpoonup> string"

text \<open>\<^verbatim>\<open>os.Getenv\<close>: the value of the variable, the empty string when it is not set.\<close>

definition Getenv :: "environ \<Rightarrow> string \<Rightarrow> string" where
  "Getenv env k = (case env k of None \<Rightarrow> [] | Some v \<Rightarrow> v)"

definition DEFAULT_MAX_RECONNECT_TIMES :: int where
  "DEFAULT_MAX_RECONNECT_TIMES = 3"

subsection \<open>strconv.Atoi\<close>

text \<open>
  The standard library's \<^verbatim>\<open>strconv.Atoi\<close> on a 64-bit platform, path by path. A text of
  1 to 18 characters takes the fast path: an optional sign, then digits only, else a
  syntax error with the value 0. Any other text goes through \<^verbatim>\<open>ParseInt(s, 10, 0)\<close>, which
  strips the sign and hands the rest to \<^verbatim>\<open>ParseUint\<close>. The loop of \<^verbatim>\<open>ParseUint\<close> reads the
  characters from the left: a character that is not a decimal digit ends it with a
  syntax error and the value 0; a digit that would carry the number past 64 bits ends
  it with a range error and the largest unsigned value, before any later character is
  looked at. \<^verbatim>\<open>ParseInt\<close> passes a syntax error on with the value 0 and turns a range
  error, or a number outside the signed range, into a range error with the nearest
  signed bound.
\<close>

datatype NumError = ErrSyntax | ErrRange

definition is_digit :: "char \<Rightarrow> bool" where
  "is_digit ch = (48 \<le> (of_char ch :: nat) \<and> (of_char ch :: nat) \<le> 57)"

definition digit :: "char \<Rightarrow> int" where
  "digit ch = of_char ch - 48"

fun parse_digits :: "int \<Rightarrow> string \<Rightarrow> int option" where
  "parse_digits n [] = Some n"
| "parse_digits n (ch # s) =
     (if is_digit ch then parse_digits (n * 10 + digit ch) s else None)"

definition maxUint64 :: int where
  "maxUint64 = 2 ^ 64 - 1"

fun ParseUint_loop :: "int \<Rightarrow> string \<Rightarrow> int \<times> NumError option" where
  "ParseUint_loop n [] = (n, None)"
| "ParseUint_loop n (c # s) =
     (if \<not> is_digit c then (0, Some ErrSyntax)
      else if n \<ge> maxUint64 div 10 + 1 then (maxUint64, Some ErrRange)
      else if n * 10 + digit c > maxUint64 then (maxUint64, Some ErrRange)
      else ParseUint_loop (n * 10 + digit c) s)"

definition ParseUint :: "string \<Rightarrow> int \<times> NumError option" where
  "ParseUint s = (if s = [] then (0, Some ErrSyntax) else ParseUint_loop 0 s)"

definition strip_sign :: "string \<Rightarrow> string" where
  "strip_sign s =
    (case s of [] \<Rightarrow> [] | c # cs \<Rightarrow> if c = CHR ''+'' \<or> c = CHR ''-'' then cs else s)"

definition ParseInt :: "string \<Rightarrow> int \<times> NumError option" where
  "ParseInt s =
    (if s = [] then (0, Some ErrSyntax)
     else
       (let neg = (hd s = CHR ''-'');
            un = fst (ParseUint (strip_sign s));
            uerr = snd (ParseUint (strip_sign s))
        in if uerr = Some ErrSyntax then (0, Some ErrSyntax)
           else if \<not> neg \<and> un \<ge> 2 ^ 63 then (2 ^ 63 - 1, Some ErrRange)
           else if neg \<and> un > 2 ^ 63 then (- (2 ^ 63), Some ErrRange)
           else (if neg then - un else un, None)))"

definition Atoi :: "string \<Rightarrow> int \<times> NumError option" where
  "Atoi s =
    (if 0 < length s \<and> length s < 19 then
       (if strip_sign s = [] then (0, Some ErrSyntax)
        else (case parse_digits 0 (strip_sign s) of
            None \<Rightarrow> (0, Some ErrSyntax)
          | Some n \<Rightarrow> (if hd s = CHR ''-'' then - n else n, None)))
     else ParseInt s)"

subsection \<open>The connection manager\<close>

text \<open>
  \<^verbatim>\<open>rbm_pool\<close>. The unbuffered channel \<^verbatim>\<open>err\<close> is the list of notifications posted and
  not yet received. \<^verbatim>\<open>conf\<close> is the configuration the pointer refers to.
\<close>

record rbm_pool =
  conn :: "handle option"
  channel :: "handle option"
  conf :: Config
  err :: "error list"
  MAXX_RECONNECT_TIMES :: int

text \<open>The lines written with \<^verbatim>\<open>log.Println\<close>, by the place that writes them.\<close>

datatype logline =
    LogUriRequired        \<comment> \<open>line 72, the variable SRV\_RMQ\_URI is mandatory\<close>
  | LogDialError          \<comment> \<open>line 95, "Erro to Connect in RabbitMQ"\<close>
  | LogChannelError       \<comment> \<open>line 106, "Erro to Connect in RabbitMQ Channel"\<close>
  | LogConnectSuccess     \<comment> \<open>line 115, "New RabbitMQ Connect Success"\<close>

text \<open>
  \<^verbatim>\<open>New\<close> takes the process environment and the caller's (non-nil) configuration. It
  gives how the call ends and the lines it logged. The package variable \<^verbatim>\<open>rbmpool\<close> is
  set to the very pool that is returned.
\<close>

definition New :: "environ \<Rightarrow> Config \<Rightarrow> rbm_pool outcome \<times> logline list" where
  "New env cfg =
    (let SRV_RMQ_URI = Getenv env ''SRV_RMQ_URI'' in
     if SRV_RMQ_URI \<noteq> [] then
       (let cfg1 = cfg\<lparr>RMQ_URI := SRV_RMQ_URI\<rparr>;
            SRV_RMQ_MAXX_RECONNECT_TIMES = Getenv env ''SRV_RMQ_MAXX_RECONNECT_TIMES'';
            cfg2 = (if SRV_RMQ_MAXX_RECONNECT_TIMES \<noteq> []
                    then cfg1\<lparr>RMQ_MAXX_RECONNECT_TIMES := fst (Atoi SRV_RMQ_MAXX_RECONNECT_TIMES)\<rparr>
                    else cfg1\<lparr>RMQ_MAXX_RECONNECT_TIMES := DEFAULT_MAX_RECONNECT_TIMES\<rparr>)
        in (Returned \<lparr>conn = None, channel = None, conf = cfg2, err = [],
                      MAXX_RECONNECT_TIMES = 0\<rparr>, []))
     else (Exited 1, [LogUriRequired]))"

text \<open>
  The broker client as one call of \<^verbatim>\<open>Connect\<close> meets it: what \<^verbatim>\<open>amqp.Dial\<close> answers for
  a URI and what \<^verbatim>\<open>Connection.Channel\<close> answers on a connection.
\<close>

record amqp =
  Dial :: "string \<Rightarrow> goresult"
  Channel :: "handle \<Rightarrow> goresult"

text \<open>
  The goroutines \<^verbatim>\<open>Connect\<close> starts: each waits on \<^verbatim>\<open>NotifyClose\<close> of one handle and
  then posts on \<^verbatim>\<open>rbm.err\<close>.
\<close>

datatype watcher = ConnWatcher handle | ChanWatcher handle

record connect_result =
  pool :: rbm_pool
  error :: "error option"
  spawned :: "watcher list"
  logged :: "logline list"

definition Connect :: "amqp \<Rightarrow> rbm_pool \<Rightarrow> connect_result" where
  "Connect lib rbm =
    (case Dial lib (RMQ_URI (conf rbm)) of
       Failed c e \<Rightarrow>
         \<lparr>pool = rbm\<lparr>conn := c\<rparr>, error = Some e, spawned = [], logged = [LogDialError]\<rparr>
     | Opened c \<Rightarrow>
        (case Channel lib c of
           Failed ch e \<Rightarrow>
             \<lparr>pool = rbm\<lparr>conn := Some c, channel := ch\<rparr>, error = Some e,
              spawned = [ConnWatcher c], logged = [LogChannelError]\<rparr>
         | Opened ch \<Rightarrow>
             \<lparr>pool = rbm\<lparr>conn := Some c, channel := Some ch\<rparr>, error = None,
              spawned = [ConnWatcher c, ChanWatcher ch], logged = [LogConnectSuccess]\<rparr>))"

definition GetConnect :: "rbm_pool \<Rightarrow> rbm_pool" where
  "GetConnect rbm = rbm"

subsection \<open>Declared but not defined in this file\<close>

text \<open>
  Modelled from the spec: the reconnect policy behind \<^verbatim>\<open>StartConsumer\<close>, which the
  interface declares and this file does not define. The spec (4.1): up to N attempts, N
  the configured maximum, each attempt re-running the full \<^verbatim>\<open>Connect()\<close> sequence, with
  no delay; a successful attempt ends the cycle; exhausting the attempts moves the manager
  to Disconnected (both handles null) and reports an unrecoverable ConnectionError to the
  failure observer. \<open>broker k\<close> is what the broker client answers during attempt \<open>k\<close>.
\<close>

record reconnect_result =
  manager :: rbm_pool
  attempts :: nat
  reconnected :: bool
  observed :: "error list"

fun reconnect_attempts :: "(nat \<Rightarrow> amqp) \<Rightarrow> nat \<Rightarrow> nat \<Rightarrow> rbm_pool \<Rightarrow> rbm_pool \<times> nat \<times> bool" where
  "reconnect_attempts broker k 0 rbm = (rbm, k, False)"
| "reconnect_attempts broker k (Suc n) rbm =
     (let r = Connect (broker k) rbm
      in if error r = None then (pool r, Suc k, True)
         else reconnect_attempts broker (Suc k) n (pool r))"

definition ConnectionError :: error where
  "ConnectionError = ''ConnectionError: reconnect attempts exhausted''"

definition reconnect :: "(nat \<Rightarrow> amqp) \<Rightarrow> rbm_pool \<Rightarrow> reconnect_result" where
  "reconnect broker rbm =
    (case reconnect_attempts broker 0 (nat (RMQ_MAXX_RECONNECT_TIMES (conf rbm))) rbm of
       (rbm', k, ok) \<Rightarrow>
         if ok then \<lparr>manager = rbm', attempts = k, reconnected = True, observed = []\<rparr>
         else \<lparr>manager = rbm'\<lparr>conn := None, channel := None\<rparr>, attempts = k,
               reconnected = False, observed = [ConnectionError]\<rparr>)"

text \<open>
  Modelled from the spec: the states of the manager's state machine (4.1), read off the
  calls made on it. A manager starts Disconnected; a \<^verbatim>\<open>Connect()\<close> that returns no error
  moves it to Connected, one that returns an error to Disconnected. \<open>run\<close> performs one
  \<^verbatim>\<open>Connect\<close> of the code per broker answer and tracks that state beside the pool.
\<close>

datatype state = Disconnected | Connected

fun run :: "amqp list \<Rightarrow> rbm_pool \<times> state \<Rightarrow> rbm_pool \<times> state" where
  "run [] s = s"
| "run (lib # libs) s =
     run libs (let r = Connect lib (GetConnect (fst s))
               in (pool r, if error r = None then Connected else Disconnected))"

text \<open>
  Modelled from the spec: the topology value objects (3) and the declarator (4.2), the
  bodies of \<^verbatim>\<open>SimpleQueueDeclare\<close>, \<^verbatim>\<open>CompleteQueueDeclare\<close>, \<^verbatim>\<open>SimpleExchangeDeclare\<close>,
  \<^verbatim>\<open>CompleteExchangeDeclare\<close> and \<^verbatim>\<open>CompleteDeclare\<close>, which the interface declares and
  this file does not define. The broker is the spec's black box: it keeps what was
  declared, refuses an exchange of a kind outside the enumeration, refuses to redeclare
  a name with other parameters, and refuses a bind whose exchange was not declared.
  \<open>wire\<close> lists the operations the broker received, oldest first.
\<close>

record BindSpec =
  bind_exchange :: string
  bind_key :: string
  bind_args :: "(string \<times> string) list"

record Queue =
  queue_name :: string
  queue_durable :: bool
  queue_auto_delete :: bool
  queue_exclusive :: bool
  queue_no_wait :: bool
  queue_args :: "(string \<times> string) list"
  queue_binds :: "BindSpec list"

record Exchange =
  exchange_name :: string
  exchange_kind :: string
  exchange_durable :: bool
  exchange_auto_delete :: bool
  exchange_args :: "(string \<times> string) list"

record QueueInfo =
  info_name :: string
  info_messages :: nat
  info_consumers :: nat

datatype wire_op =
    ExchangeDeclare string
  | QueueDeclare string
  | QueueBind string string string

record broker =
  exchanges :: "Exchange list"
  queues :: "Queue list"
  bindings :: "(string \<times> BindSpec) list"
  counts :: "string \<Rightarrow> nat \<times> nat"
  wire :: "wire_op list"

datatype decl_error = NotConnectedError | DeclarationError string

definition exchange_kinds :: "string list" where
  "exchange_kinds = [''direct'', ''fanout'', ''topic'', ''headers'']"

definition broker_exchange_declare :: "broker \<Rightarrow> Exchange \<Rightarrow> broker \<times> bool" where
  "broker_exchange_declare b e =
    (let b1 = b\<lparr>wire := wire b @ [ExchangeDeclare (exchange_name e)]\<rparr>
     in if exchange_kind e \<notin> set exchange_kinds then (b1, False)
        else (case find (\<lambda>x. exchange_name x = exchange_name e) (exchanges b) of
            Some x \<Rightarrow> (b1, x = e)
          | None \<Rightarrow> (b1\<lparr>exchanges := exchanges b @ [e]\<rparr>, True)))"

definition broker_queue_declare :: "broker \<Rightarrow> Queue \<Rightarrow> broker \<times> bool" where
  "broker_queue_declare b q =
    (let b1 = b\<lparr>wire := wire b @ [QueueDeclare (queue_name q)]\<rparr>;
         params = q\<lparr>queue_binds := []\<rparr>
     in (case find (\<lambda>x. queue_name x = queue_name q) (queues b) of
            Some x \<Rightarrow> (b1, x = params)
          | None \<Rightarrow> (b1\<lparr>queues := queues b @ [params]\<rparr>, True)))"

definition broker_queue_bind :: "broker \<Rightarrow> string \<Rightarrow> BindSpec \<Rightarrow> broker \<times> bool" where
  "broker_queue_bind b qn bd =
    (let b1 = b\<lparr>wire := wire b @ [QueueBind qn (bind_exchange bd) (bind_key bd)]\<rparr>
     in if bind_exchange bd \<in> set (map exchange_name (exchanges b))
        then (b1\<lparr>bindings := List.insert (qn, bd) (bindings b)\<rparr>, True)
        else (b1, False))"

definition SimpleExchangeDeclare :: "rbm_pool \<Rightarrow> broker \<Rightarrow> Exchange \<Rightarrow> broker \<times> decl_error option" where
  "SimpleExchangeDeclare rbm b se =
    (case channel (GetConnect rbm) of
       None \<Rightarrow> (b, Some NotConnectedError)
     | Some ch \<Rightarrow>
        (case broker_exchange_declare b se of
           (b', ok) \<Rightarrow> (b', if ok then None else Some (DeclarationError (exchange_name se)))))"

fun apply_binds :: "broker \<Rightarrow> string \<Rightarrow> BindSpec list \<Rightarrow> broker \<times> bool" where
  "apply_binds b qn [] = (b, True)"
| "apply_binds b qn (bd # bds) =
     (case broker_queue_bind b qn bd of
        (b', ok) \<Rightarrow> if ok then apply_binds b' qn bds else (b', False))"

definition SimpleQueueDeclare :: "rbm_pool \<Rightarrow> broker \<Rightarrow> Queue \<Rightarrow> broker \<times> (decl_error + QueueInfo)" where
  "SimpleQueueDeclare rbm b sq =
    (case channel (GetConnect rbm) of
       None \<Rightarrow> (b, Inl NotConnectedError)
     | Some ch \<Rightarrow>
        (case broker_queue_declare b sq of
           (b1, ok) \<Rightarrow>
             if \<not> ok then (b1, Inl (DeclarationError (queue_name sq)))
             else (case apply_binds b1 (queue_name sq) (queue_binds sq) of
                 (b2, bound) \<Rightarrow>
                   if bound
                   then (b2, Inr \<lparr>info_name = queue_name sq,
                                  info_messages = fst (counts b2 (queue_name sq)),
                                  info_consumers = snd (counts b2 (queue_name sq))\<rparr>)
                   else (b2, Inl (DeclarationError (queue_name sq))))))"

fun CompleteExchangeDeclare :: "rbm_pool \<Rightarrow> broker \<Rightarrow> Exchange list \<Rightarrow> broker \<times> decl_error list" where
  "CompleteExchangeDeclare rbm b [] = (b, [])"
| "CompleteExchangeDeclare rbm b (se # ce) =
     (case SimpleExchangeDeclare rbm b se of
        (b1, r) \<Rightarrow>
          (case CompleteExchangeDeclare rbm b1 ce of
             (b2, errs) \<Rightarrow> (b2, (case r of None \<Rightarrow> [] | Some e \<Rightarrow> [e]) @ errs)))"

fun CompleteQueueDeclare :: "rbm_pool \<Rightarrow> broker \<Rightarrow> Queue list \<Rightarrow> broker \<times> decl_error list" where
  "CompleteQueueDeclare rbm b [] = (b, [])"
| "CompleteQueueDeclare rbm b (sq # cq) =
     (case SimpleQueueDeclare rbm b sq of
        (b1, r) \<Rightarrow>
          (case CompleteQueueDeclare rbm b1 cq of
             (b2, errs) \<Rightarrow> (b2, (case r of Inl e \<Rightarrow> [e] | Inr info \<Rightarrow> []) @ errs)))"

definition CompleteDeclare :: "rbm_pool \<Rightarrow> broker \<Rightarrow> Queue list \<Rightarrow> Exchange list \<Rightarrow> broker \<times> decl_error list" where
  "CompleteDeclare rbm b cq ce =
    (case CompleteExchangeDeclare rbm b ce of
       (b1, errs1) \<Rightarrow>
         (case CompleteQueueDeclare rbm b1 cq of
            (b2, errs2) \<Rightarrow> (b2, errs1 @ errs2)))"

section \<open>pkg/adapter/azure/blobstorage/blobstorage.go\<close>

subsection \<open>The storage service behind the client\<close>

text \<open>
  The Azure Blob service as the adapter's client reaches it: blobs by container and
  name, each with the entity tag the service gave it. A write carries its access
  conditions. With \<^verbatim>\<open>If-None-Match\<close> the service refuses the write when a blob is at
  the name and the tag given is \<^verbatim>\<open>*\<close> (\<^verbatim>\<open>azcore.ETagAny\<close>) or the blob's own tag; without
  the condition it overwrites. \<open>fault\<close> is a failure of the service or the transport
  that does not depend on the request. \<open>requests\<close> lists the writes received.
\<close>

type_synonym bytes = "char list"

datatype ETag = ETagAny | ETagValue nat

record blob =
  content :: bytes
  etag :: nat

record AccessConditions =
  IfNoneMatch :: "ETag option"

record put_request =
  put_container :: string
  put_blob :: string
  put_conditions :: AccessConditions

record azure =
  blobs :: "string \<times> string \<rightharpoonup> blob"
  clock :: nat
  fault :: "error option"
  requests :: "put_request list"

definition condition_fails :: "AccessConditions \<Rightarrow> blob option \<Rightarrow> bool" where
  "condition_fails ac existing =
    (case IfNoneMatch ac of
       None \<Rightarrow> False
     | Some ETagAny \<Rightarrow> existing \<noteq> None
     | Some (ETagValue t) \<Rightarrow> (case existing of None \<Rightarrow> False | Some bl \<Rightarrow> etag bl = t))"

definition service_put :: "azure \<Rightarrow> string \<Rightarrow> string \<Rightarrow> bytes \<Rightarrow> AccessConditions \<Rightarrow> azure \<times> error option" where
  "service_put az containerName blobName data ac =
    (let az1 = az\<lparr>requests := requests az @
                 [\<lparr>put_container = containerName, put_blob = blobName, put_conditions = ac\<rparr>]\<rparr>
     in case fault az of
          Some e \<Rightarrow> (az1, Some e)
        | None \<Rightarrow>
           if condition_fails ac (blobs az (containerName, blobName))
           then (az1, Some ''BlobAlreadyExists'')
           else (az1\<lparr>blobs := (blobs az)((containerName, blobName) \<mapsto>
                                 \<lparr>content = data, etag = clock az\<rparr>),
                      clock := Suc (clock az)\<rparr>, None))"


subsection \<open>The adapter\<close>

definition UploadBlobBuffer :: "azure \<Rightarrow> string \<Rightarrow> string \<Rightarrow> bytes \<Rightarrow> azure \<times> error option" where
  "UploadBlobBuffer az blobName containerName data =
    (case service_put az containerName blobName data \<lparr>IfNoneMatch = Some ETagAny\<rparr> of
       (az', Some e) \<Rightarrow> (az', Some (''error uploading a buffer blob: '' @ e))
     | (az', None) \<Rightarrow> (az', None))"

definition UploadBlobStream :: "azure \<Rightarrow> string \<Rightarrow> string \<Rightarrow> bytes \<Rightarrow> azure \<times> error option" where
  "UploadBlobStream az blobName containerName data =
    (case service_put az containerName blobName data \<lparr>IfNoneMatch = Some ETagAny\<rparr> of
       (az', Some e) \<Rightarrow> (az', Some (''error uploading a stream blob: '' @ e))
     | (az', None) \<Rightarrow> (az', None))"








section \<open>Vocabulary of the properties\<close>

text \<open>
  A valid integer for the reconnect count, as a property of the text alone: an optional
  sign followed by one or more decimal digits.
\<close>

definition valid_integer :: "string \<Rightarrow> bool" where
  "valid_integer s =
    (case s of
       [] \<Rightarrow> False
     | c # cs \<Rightarrow>
        if c = CHR ''-'' \<or> c = CHR ''+'' then cs \<noteq> [] \<and> list_all is_digit cs
        else list_all is_digit s)"

text \<open>
  The number spelled by the digits a text starts with, once its sign is taken off, and
  whether that number is too large for 64 bits unsigned.
\<close>

definition leading_value :: "string \<Rightarrow> int" where
  "leading_value s = foldl (\<lambda>n c. n * 10 + digit c) 0 (takeWhile is_digit s)"

definition overflows_uint64 :: "string \<Rightarrow> bool" where
  "overflows_uint64 s = (leading_value (strip_sign s) > 2 ^ 64 - 1)"



text \<open>The operations the broker received between two of its states.\<close>

definition sent :: "broker \<Rightarrow> broker \<Rightarrow> wire_op list" where
  "sent b b' = drop (length (wire b)) (wire b')"

text \<open>
  What the single declaration answers for each spec of a batch, in input order, each
  one run on the broker as the specs before it left it; the errors among such answers;
  and the names declared by a run of operations on the wire.
\<close>

fun exchange_outcomes :: "rbm_pool \<Rightarrow> broker \<Rightarrow> Exchange list \<Rightarrow> decl_error option list" where
  "exchange_outcomes rbm b [] = []"
| "exchange_outcomes rbm b (se # ce) =
     snd (SimpleExchangeDeclare rbm b se) #
     exchange_outcomes rbm (fst (SimpleExchangeDeclare rbm b se)) ce"

fun queue_outcomes :: "rbm_pool \<Rightarrow> broker \<Rightarrow> Queue list \<Rightarrow> (decl_error + QueueInfo) list" where
  "queue_outcomes rbm b [] = []"
| "queue_outcomes rbm b (sq # cq) =
     snd (SimpleQueueDeclare rbm b sq) #
     queue_outcomes rbm (fst (SimpleQueueDeclare rbm b sq)) cq"

fun exchange_declares :: "wire_op list \<Rightarrow> string list" where
  "exchange_declares [] = []"
| "exchange_declares (ExchangeDeclare n # ops) = n # exchange_declares ops"
| "exchange_declares (op # ops) = exchange_declares ops"

fun queue_declares :: "wire_op list \<Rightarrow> string list" where
  "queue_declares [] = []"
| "queue_declares (QueueDeclare n # ops) = n # queue_declares ops"
| "queue_declares (op # ops) = queue_declares ops"

definition exchange_errors :: "decl_error option list \<Rightarrow> decl_error list" where
  "exchange_errors rs = [e. Some e \<leftarrow> rs]"

definition queue_errors :: "(decl_error + QueueInfo) list \<Rightarrow> decl_error list" where
  "queue_errors rs = [e. Inl e \<leftarrow> rs]"

subsection \<open>Concrete inputs\<close>

definition cfg0 :: Config where
  "cfg0 = \<lparr>RMQ_URI = [], RMQ_MAXX_RECONNECT_TIMES = 0\<rparr>"

definition env_none :: environ where
  "env_none = Map.empty"

definition env_uri :: environ where
  "env_uri = [''SRV_RMQ_URI'' \<mapsto> ''amqp://localhost:5672/'']"

definition env_bad :: environ where
  "env_bad = [''SRV_RMQ_URI'' \<mapsto> ''amqp://localhost:5672/'',
              ''SRV_RMQ_MAXX_RECONNECT_TIMES'' \<mapsto> ''three'']"

definition env_overflow :: environ where
  "env_overflow = [''SRV_RMQ_URI'' \<mapsto> ''amqp://localhost:5672/'',
                   ''SRV_RMQ_MAXX_RECONNECT_TIMES'' \<mapsto> ''99999999999999999999x'']"

text \<open>The pool \<^verbatim>\<open>New\<close> returns under \<open>env_uri\<close>.\<close>

definition fresh :: rbm_pool where
  "fresh = \<lparr>conn = None, channel = None,
            conf = \<lparr>RMQ_URI = ''amqp://localhost:5672/'', RMQ_MAXX_RECONNECT_TIMES = 3\<rparr>,
            err = [], MAXX_RECONNECT_TIMES = 0\<rparr>"

definition lib_ok :: amqp where
  "lib_ok = \<lparr>Dial = (\<lambda>uri. Opened 1), Channel = (\<lambda>c. Opened 2)\<rparr>"

definition lib_no_channel :: amqp where
  "lib_no_channel =
     \<lparr>Dial = (\<lambda>uri. Opened 1), Channel = (\<lambda>c. Failed None ''channel refused'')\<rparr>"

definition lib_down :: amqp where
  "lib_down =
     \<lparr>Dial = (\<lambda>uri. Failed None ''connection refused''),
      Channel = (\<lambda>c. Failed None ''closed'')\<rparr>"

definition broker_down :: "nat \<Rightarrow> amqp" where
  "broker_down k = lib_down"






definition az0 :: azure where
  "az0 = \<lparr>blobs = Map.empty, clock = 0, fault = None, requests = []\<rparr>"

definition az1 :: azure where
  "az1 = \<lparr>blobs = [(''docs'', ''a.txt'') \<mapsto> \<lparr>content = ''old'', etag = 0\<rparr>], clock = 1,
          fault = None, requests = []\<rparr>"


definition connected :: rbm_pool where
  "connected = fresh\<lparr>conn := Some 1, channel := Some 2\<rparr>"

definition broker0 :: broker where
  "broker0 = \<lparr>exchanges = [], queues = [], bindings = [], counts = (\<lambda>n. (0, 0)), wire = []\<rparr>"

definition orders :: Exchange where
  "orders = \<lparr>exchange_name = ''orders'', exchange_kind = ''topic'', exchange_durable = True,
             exchange_auto_delete = False, exchange_args = []\<rparr>"

definition bad_exchange :: Exchange where
  "bad_exchange = \<lparr>exchange_name = ''audit'', exchange_kind = ''broadcast'',
                   exchange_durable = True, exchange_auto_delete = False, exchange_args = []\<rparr>"

definition orders_created :: Queue where
  "orders_created =
     \<lparr>queue_name = ''orders.created'', queue_durable = True, queue_auto_delete = False,
      queue_exclusive = False, queue_no_wait = False, queue_args = [],
      queue_binds = [\<lparr>bind_exchange = ''orders'', bind_key = ''created'', bind_args = []\<rparr>]\<rparr>"

definition orphan :: Queue where
  "orphan =
     \<lparr>queue_name = ''orphan'', queue_durable = True, queue_auto_delete = False,
      queue_exclusive = False, queue_no_wait = False, queue_args = [],
      queue_binds = [\<lparr>bind_exchange = ''missing'', bind_key = ''k'', bind_args = []\<rparr>]\<rparr>"

definition plain :: Queue where
  "plain =
     \<lparr>queue_name = ''plain'', queue_durable = False, queue_auto_delete = False,
      queue_exclusive = False, queue_no_wait = False, queue_args = [], queue_binds = []\<rparr>"


section \<open>Properties\<close>

subsection \<open>Construction\<close>

lemma digit_range: "is_digit c \<Longrightarrow> 0 \<le> digit c \<and> digit c \<le> 9"
proof -
  assume "is_digit c"
  then have "48 \<le> (of_char c :: nat) \<and> (of_char c :: nat) \<le> 57"
    by (simp add: is_digit_def)
  then have "48 \<le> int (of_char c) \<and> int (of_char c) \<le> 57" by simp
  then show ?thesis by (simp add: digit_def of_nat_of_char)
qed

lemma foldl_digits_ge:
  "0 \<le> n \<Longrightarrow> list_all is_digit ds \<Longrightarrow> n \<le> foldl (\<lambda>n c. n * 10 + digit c) n ds"
proof (induction ds arbitrary: n)
  case Nil
  then show ?case by simp
next
  case (Cons d ds)
  from Cons.prems have d: "0 \<le> digit d" using digit_range by simp
  with Cons.prems have "0 \<le> n * 10 + digit d" by simp
  moreover from Cons.prems have "list_all is_digit ds" by simp
  ultimately have "n * 10 + digit d \<le> foldl (\<lambda>n c. n * 10 + digit c) (n * 10 + digit d) ds"
    by (rule Cons.IH)
  with d Cons.prems(1) show ?case by simp
qed

lemma foldl_digits_bound:
  "0 \<le> n \<Longrightarrow> list_all is_digit ds \<Longrightarrow>
     foldl (\<lambda>n c. n * 10 + digit c) n ds < (n + 1) * 10 ^ length ds"
proof (induction ds arbitrary: n)
  case Nil
  then show ?case by simp
next
  case (Cons d ds)
  from Cons.prems have d: "0 \<le> digit d \<and> digit d \<le> 9" using digit_range by simp
  with Cons.prems have "0 \<le> n * 10 + digit d" by simp
  moreover from Cons.prems have "list_all is_digit ds" by simp
  ultimately have "foldl (\<lambda>n c. n * 10 + digit c) (n * 10 + digit d) ds
      < (n * 10 + digit d + 1) * 10 ^ length ds"
    by (rule Cons.IH)
  also have "\<dots> \<le> (n * 10 + 10) * 10 ^ length ds"
    using d by (intro mult_right_mono) auto
  also have "\<dots> = (n + 1) * 10 ^ length (d # ds)" by (simp add: algebra_simps)
  finally show ?case by simp
qed

lemma ParseUint_loop_eq:
  "0 \<le> n \<Longrightarrow> n \<le> maxUint64 \<Longrightarrow>
   ParseUint_loop n s =
     (if foldl (\<lambda>n c. n * 10 + digit c) n (takeWhile is_digit s) > maxUint64
      then (maxUint64, Some ErrRange)
      else if list_all is_digit s then (foldl (\<lambda>n c. n * 10 + digit c) n s, None)
      else (0, Some ErrSyntax))"
proof (induction s arbitrary: n)
  case Nil
  then show ?case by simp
next
  case (Cons c s)
  show ?case
  proof (cases "is_digit c")
    case False
    with Cons.prems show ?thesis by simp
  next
    case True
    let ?n1 = "n * 10 + digit c"
    from True have d: "0 \<le> digit c \<and> digit c \<le> 9" by (rule digit_range)
    have n1: "0 \<le> ?n1" using d Cons.prems(1) by simp
    have ge: "?n1 \<le> foldl (\<lambda>n c. n * 10 + digit c) ?n1 (takeWhile is_digit s)"
      using n1 by (rule foldl_digits_ge) (simp add: list_all_iff, meson set_takeWhileD)
    show ?thesis
    proof (cases "n \<ge> maxUint64 div 10 + 1 \<or> ?n1 > maxUint64")
      case True
      then have "?n1 > maxUint64" using d by (auto simp: maxUint64_def)
      with ge have "foldl (\<lambda>n c. n * 10 + digit c) ?n1 (takeWhile is_digit s) > maxUint64"
        by simp
      with True \<open>is_digit c\<close> show ?thesis by auto
    next
      case False
      then have le: "?n1 \<le> maxUint64" by simp
      from Cons.IH [OF n1 le] False \<open>is_digit c\<close> show ?thesis by simp
    qed
  qed
qed

lemma parse_digits_None: "\<not> list_all is_digit s \<Longrightarrow> parse_digits n s = None"
  by (induction s arbitrary: n) auto

lemma parse_digits_Some: "list_all is_digit s \<Longrightarrow> parse_digits n s \<noteq> None"
  by (induction s arbitrary: n) auto

lemma leading_digits: "list_all is_digit (takeWhile is_digit s)"
  by (induction s) auto

lemma valid_integer_strip:
  "valid_integer s \<longleftrightarrow> strip_sign s \<noteq> [] \<and> list_all is_digit (strip_sign s)"
  by (cases s) (auto simp: valid_integer_def strip_sign_def)

lemma short_no_overflow: "length s < 19 \<Longrightarrow> \<not> overflows_uint64 s"
proof -
  assume len: "length s < 19"
  let ?ds = "takeWhile is_digit (strip_sign s)"
  have "length (strip_sign s) \<le> length s"
    by (simp add: strip_sign_def split: list.splits)
  moreover have "length ?ds \<le> length (strip_sign s)" by (rule length_takeWhile_le)
  ultimately have l: "length ?ds \<le> 18" using len by simp
  have "foldl (\<lambda>n c. n * 10 + digit c) 0 ?ds < (0 + 1) * 10 ^ length ?ds"
    by (rule foldl_digits_bound) (simp_all add: leading_digits)
  also have "\<dots> = (10::int) ^ length ?ds" by simp
  also have "\<dots> \<le> (10::int) ^ 18"
    using l by (intro power_increasing) auto
  finally show ?thesis by (simp add: overflows_uint64_def leading_value_def)
qed

lemma ParseUint_cases:
  "body \<noteq> [] \<Longrightarrow>
   ParseUint body =
     (if leading_value body > 2 ^ 64 - 1 then (2 ^ 64 - 1, Some ErrRange)
      else if list_all is_digit body then (foldl (\<lambda>n c. n * 10 + digit c) 0 body, None)
      else (0, Some ErrSyntax))"
proof -
  assume ne: "body \<noteq> []"
  have "ParseUint body = ParseUint_loop 0 body" using ne by (simp add: ParseUint_def)
  also have "\<dots> =
     (if foldl (\<lambda>n c. n * 10 + digit c) 0 (takeWhile is_digit body) > maxUint64
      then (maxUint64, Some ErrRange)
      else if list_all is_digit body then (foldl (\<lambda>n c. n * 10 + digit c) 0 body, None)
      else (0, Some ErrSyntax))"
    by (rule ParseUint_loop_eq) (simp_all add: maxUint64_def)
  finally show ?thesis by (simp add: leading_value_def maxUint64_def)
qed

lemma Atoi_invalid:
  assumes "s \<noteq> []" and "\<not> valid_integer s"
  shows "Atoi s =
     (if overflows_uint64 s
      then (if hd s = CHR ''-'' then - (2 ^ 63) else 2 ^ 63 - 1, Some ErrRange)
      else (0, Some ErrSyntax))"
proof -
  define body where "body = strip_sign s"
  have inv: "body = [] \<or> \<not> list_all is_digit body"
    using assms(2) by (auto simp: valid_integer_strip body_def)
  have ov: "overflows_uint64 s \<longleftrightarrow> leading_value body > 2 ^ 64 - 1"
    by (simp add: overflows_uint64_def body_def)
  show ?thesis
  proof (cases "length s < 19")
    case True
    then have no: "\<not> overflows_uint64 s" by (rule short_no_overflow)
    have "Atoi s = (0, Some ErrSyntax)"
    proof (cases "body = []")
      case True
      with \<open>length s < 19\<close> assms(1) show ?thesis by (simp add: Atoi_def body_def)
    next
      case False
      with inv have "parse_digits 0 body = None" by (simp add: parse_digits_None)
      with False \<open>length s < 19\<close> assms(1) show ?thesis by (simp add: Atoi_def body_def)
    qed
    with no show ?thesis by simp
  next
    case False
    then have a: "Atoi s = ParseInt s" by (simp add: Atoi_def)
    have pi: "ParseInt s =
       (if snd (ParseUint body) = Some ErrSyntax then (0, Some ErrSyntax)
        else if hd s \<noteq> CHR ''-'' \<and> fst (ParseUint body) \<ge> 2 ^ 63
          then (2 ^ 63 - 1, Some ErrRange)
        else if hd s = CHR ''-'' \<and> fst (ParseUint body) > 2 ^ 63
          then (- (2 ^ 63), Some ErrRange)
        else (if hd s = CHR ''-'' then - fst (ParseUint body) else fst (ParseUint body), None))"
      using assms(1) unfolding ParseInt_def body_def Let_def by simp
    show ?thesis
    proof (cases "body = []")
      case True
      then have "ParseUint body = (0, Some ErrSyntax)" by (simp add: ParseUint_def)
      moreover have "\<not> overflows_uint64 s"
        using True ov by (simp add: leading_value_def)
      ultimately show ?thesis using a pi by simp
    next
      case ne: False
      with inv have ni: "\<not> list_all is_digit body" by simp
      have pu: "ParseUint body =
         (if leading_value body > 2 ^ 64 - 1 then (2 ^ 64 - 1, Some ErrRange)
          else (0, Some ErrSyntax))"
        using ParseUint_cases [OF ne] ni by simp
      show ?thesis
      proof (cases "overflows_uint64 s")
        case True
        with ov pu have "ParseUint body = (2 ^ 64 - 1, Some ErrRange)" by simp
        with pi have "ParseInt s =
            (if hd s = CHR ''-'' then - (2 ^ 63) else 2 ^ 63 - 1, Some ErrRange)"
          by simp
        with a True show ?thesis by simp
      next
        case False
        with ov pu have "ParseUint body = (0, Some ErrSyntax)" by simp
        with pi have "ParseInt s = (0, Some ErrSyntax)" by simp
        with a False show ?thesis by simp
      qed
    qed
  qed
qed

lemma Atoi_valid_no_syntax_error:
  assumes "valid_integer s"
  shows "snd (Atoi s) \<noteq> Some ErrSyntax"
proof -
  define body where "body = strip_sign s"
  have v: "body \<noteq> []" "list_all is_digit body"
    using assms by (simp_all add: valid_integer_strip body_def)
  from v(1) have ne: "s \<noteq> []" by (auto simp: body_def strip_sign_def)
  show ?thesis
  proof (cases "length s < 19")
    case True
    from v have "parse_digits 0 body \<noteq> None" by (simp add: parse_digits_Some)
    then obtain n where "parse_digits 0 body = Some n" by auto
    with True v ne show ?thesis by (simp add: Atoi_def body_def)
  next
    case False
    then have a: "Atoi s = ParseInt s" by (simp add: Atoi_def)
    have "snd (ParseUint body) \<noteq> Some ErrSyntax"
      using ParseUint_cases [OF v(1)] v(2) by simp
    then have "snd (ParseInt s) \<noteq> Some ErrSyntax"
      using ne unfolding ParseInt_def body_def Let_def by simp
    with a show ?thesis by simp
  qed
qed

lemma Atoi_error_value:
  "(snd (Atoi s) = Some ErrSyntax \<longrightarrow> fst (Atoi s) = 0) \<and>
   (snd (Atoi s) = Some ErrRange \<longrightarrow>
      fst (Atoi s) = (if hd s = CHR ''-'' then - (2 ^ 63) else 2 ^ 63 - 1))"
  unfolding Atoi_def ParseInt_def Let_def
  by (simp split: option.splits)

lemma Atoi_overflow_then_junk:
  "Atoi ''99999999999999999999x'' = (9223372036854775807, Some ErrRange)"
  by (simp add: Atoi_def ParseInt_def ParseUint_def strip_sign_def Let_def is_digit_def
      digit_def maxUint64_def)

lemma New_env_uri: "New env_uri cfg0 = (Returned fresh, [])"
  by (simp add: New_def Getenv_def env_uri_def cfg0_def fresh_def Let_def
      DEFAULT_MAX_RECONNECT_TIMES_def)

text \<open>
  C6. At construction the broker URI is required: when \<^verbatim>\<open>SRV_RMQ_URI\<close> is unset or empty,
  \<^verbatim>\<open>New\<close> logs that the variable is mandatory and ends the process with status 1. The
  maximum reconnect count is optional: when \<^verbatim>\<open>SRV_RMQ_MAXX_RECONNECT_TIMES\<close> is unset or
  empty, the pool is returned with the count 3 and the URI of the environment.
\<close>

theorem New_configuration:
  "(Getenv env ''SRV_RMQ_URI'' = [] \<longrightarrow> New env cfg = (Exited 1, [LogUriRequired])) \<and>
   (Getenv env ''SRV_RMQ_URI'' \<noteq> [] \<and> Getenv env ''SRV_RMQ_MAXX_RECONNECT_TIMES'' = [] \<longrightarrow>
     (\<exists>rbm. fst (New env cfg) = Returned rbm \<and>
        RMQ_URI (conf rbm) = Getenv env ''SRV_RMQ_URI'' \<and>
        RMQ_MAXX_RECONNECT_TIMES (conf rbm) = 3))"
  by (simp add: New_def Let_def DEFAULT_MAX_RECONNECT_TIMES_def)

theorem New_configuration_witness:
  "Getenv env_none ''SRV_RMQ_URI'' = [] \<and>
   New env_none cfg0 = (Exited 1, [LogUriRequired]) \<and>
   Getenv env_uri ''SRV_RMQ_URI'' \<noteq> [] \<and>
   Getenv env_uri ''SRV_RMQ_MAXX_RECONNECT_TIMES'' = [] \<and>
   (\<exists>rbm. fst (New env_uri cfg0) = Returned rbm \<and>
      RMQ_URI (conf rbm) = ''amqp://localhost:5672/'' \<and>
      RMQ_MAXX_RECONNECT_TIMES (conf rbm) = 3)"
  using New_configuration [of env_none cfg0] New_configuration [of env_uri cfg0]
  by (simp add: Getenv_def env_uri_def env_none_def)

text \<open>
  C10 as stated: every non-empty value of \<^verbatim>\<open>SRV_RMQ_MAXX_RECONNECT_TIMES\<close> that is not a
  valid integer leaves the maximum reconnect count 0. Twenty nines followed by a letter
  are not a valid integer, and \<^verbatim>\<open>New\<close> stores the largest 64-bit integer: \<^verbatim>\<open>Atoi\<close> stops at
  the overflowing digit with a range error and the clamped value.
\<close>

theorem New_malformed_reconnect_times_counterexample:
  "Getenv env_overflow ''SRV_RMQ_URI'' \<noteq> [] \<and>
   Getenv env_overflow ''SRV_RMQ_MAXX_RECONNECT_TIMES'' = ''99999999999999999999x'' \<and>
   \<not> valid_integer ''99999999999999999999x'' \<and>
   New env_overflow cfg0 =
     (Returned (fresh\<lparr>conf := \<lparr>RMQ_URI = ''amqp://localhost:5672/'',
                                RMQ_MAXX_RECONNECT_TIMES = 9223372036854775807\<rparr>\<rparr>), []) \<and>
   RMQ_MAXX_RECONNECT_TIMES
     (conf (fresh\<lparr>conf := \<lparr>RMQ_URI = ''amqp://localhost:5672/'',
                              RMQ_MAXX_RECONNECT_TIMES = 9223372036854775807\<rparr>\<rparr>)) \<noteq> 0"
proof -
  have g: "Getenv env_overflow ''SRV_RMQ_URI'' = ''amqp://localhost:5672/'' \<and>
           Getenv env_overflow ''SRV_RMQ_MAXX_RECONNECT_TIMES'' = ''99999999999999999999x''"
    by (simp add: Getenv_def env_overflow_def)
  have v: "\<not> valid_integer ''99999999999999999999x''"
    by (simp add: valid_integer_def is_digit_def)
  have n: "New env_overflow cfg0 =
     (Returned (fresh\<lparr>conf := \<lparr>RMQ_URI = ''amqp://localhost:5672/'',
                                RMQ_MAXX_RECONNECT_TIMES = 9223372036854775807\<rparr>\<rparr>), [])"
    unfolding New_def Let_def using g
    by (simp add: Atoi_overflow_then_junk cfg0_def fresh_def)
  from g v n show ?thesis by simp
qed

text \<open>
  C10, amended. When \<^verbatim>\<open>SRV_RMQ_URI\<close> is set and \<^verbatim>\<open>SRV_RMQ_MAXX_RECONNECT_TIMES\<close> is not
  empty, \<^verbatim>\<open>New\<close> logs nothing and returns the pool with the count \<^verbatim>\<open>Atoi\<close> returned,
  whatever error came with it: 0 with a syntax error, the largest 64-bit integer (the
  smallest after a minus sign) with a range error. A value that is not a valid integer
  always gets an error. It is a syntax error, so the count is 0, not the default 3, and
  the reconnect policy makes no attempt, unless the digits the value starts with
  already exceed 64 bits unsigned; then it is a range error with the clamped count. A
  value shorter than 19 characters never overflows. A syntax error arises only for a
  value that is not a valid integer.
\<close>

theorem New_malformed_reconnect_times:
  assumes "Getenv env ''SRV_RMQ_URI'' \<noteq> []"
    and "Getenv env ''SRV_RMQ_MAXX_RECONNECT_TIMES'' = s"
    and "s \<noteq> []"
  shows "New env cfg =
       (Returned \<lparr>conn = None, channel = None,
                  conf = cfg\<lparr>RMQ_URI := Getenv env ''SRV_RMQ_URI'',
                             RMQ_MAXX_RECONNECT_TIMES := fst (Atoi s)\<rparr>,
                  err = [], MAXX_RECONNECT_TIMES = 0\<rparr>, []) \<and>
     (snd (Atoi s) = Some ErrSyntax \<longrightarrow> fst (Atoi s) = 0 \<and> \<not> valid_integer s) \<and>
     (snd (Atoi s) = Some ErrRange \<longrightarrow>
        fst (Atoi s) = (if hd s = CHR ''-'' then - (2 ^ 63) else 2 ^ 63 - 1)) \<and>
     (\<not> valid_integer s \<longrightarrow>
        snd (Atoi s) \<noteq> None \<and>
        (\<not> overflows_uint64 s \<longrightarrow> Atoi s = (0, Some ErrSyntax)) \<and>
        (overflows_uint64 s \<longrightarrow>
           Atoi s = (if hd s = CHR ''-'' then - (2 ^ 63) else 2 ^ 63 - 1, Some ErrRange)) \<and>
        (length s < 19 \<longrightarrow> \<not> overflows_uint64 s)) \<and>
     DEFAULT_MAX_RECONNECT_TIMES = 3 \<and>
     (fst (Atoi s) = 0 \<longrightarrow>
        (\<forall>rbm broker. fst (New env cfg) = Returned rbm \<longrightarrow>
           attempts (reconnect broker rbm) = 0 \<and> \<not> reconnected (reconnect broker rbm)))"
proof -
  have n: "New env cfg =
       (Returned \<lparr>conn = None, channel = None,
                  conf = cfg\<lparr>RMQ_URI := Getenv env ''SRV_RMQ_URI'',
                             RMQ_MAXX_RECONNECT_TIMES := fst (Atoi s)\<rparr>,
                  err = [], MAXX_RECONNECT_TIMES = 0\<rparr>, [])"
    using assms by (simp add: New_def Let_def)
  have sy: "snd (Atoi s) = Some ErrSyntax \<longrightarrow> fst (Atoi s) = 0 \<and> \<not> valid_integer s"
    using Atoi_error_value [of s] Atoi_valid_no_syntax_error [of s] by blast
  have ra: "snd (Atoi s) = Some ErrRange \<longrightarrow>
        fst (Atoi s) = (if hd s = CHR ''-'' then - (2 ^ 63) else 2 ^ 63 - 1)"
    using Atoi_error_value [of s] by blast
  have iv: "\<not> valid_integer s \<longrightarrow>
        snd (Atoi s) \<noteq> None \<and>
        (\<not> overflows_uint64 s \<longrightarrow> Atoi s = (0, Some ErrSyntax)) \<and>
        (overflows_uint64 s \<longrightarrow>
           Atoi s = (if hd s = CHR ''-'' then - (2 ^ 63) else 2 ^ 63 - 1, Some ErrRange)) \<and>
        (length s < 19 \<longrightarrow> \<not> overflows_uint64 s)"
  proof
    assume nv: "\<not> valid_integer s"
    note a = Atoi_invalid [OF assms(3) nv]
    have "snd (Atoi s) \<noteq> None" unfolding a by simp
    moreover have "\<not> overflows_uint64 s \<longrightarrow> Atoi s = (0, Some ErrSyntax)"
      unfolding a by simp
    moreover have "overflows_uint64 s \<longrightarrow>
           Atoi s = (if hd s = CHR ''-'' then - (2 ^ 63) else 2 ^ 63 - 1, Some ErrRange)"
      unfolding a by simp
    moreover have "length s < 19 \<longrightarrow> \<not> overflows_uint64 s"
      using short_no_overflow by blast
    ultimately show "snd (Atoi s) \<noteq> None \<and>
        (\<not> overflows_uint64 s \<longrightarrow> Atoi s = (0, Some ErrSyntax)) \<and>
        (overflows_uint64 s \<longrightarrow>
           Atoi s = (if hd s = CHR ''-'' then - (2 ^ 63) else 2 ^ 63 - 1, Some ErrRange)) \<and>
        (length s < 19 \<longrightarrow> \<not> overflows_uint64 s)"
      by blast
  qed
  have d: "DEFAULT_MAX_RECONNECT_TIMES = 3" by (simp add: DEFAULT_MAX_RECONNECT_TIMES_def)
  have rc: "fst (Atoi s) = 0 \<longrightarrow>
        (\<forall>rbm broker. fst (New env cfg) = Returned rbm \<longrightarrow>
           attempts (reconnect broker rbm) = 0 \<and> \<not> reconnected (reconnect broker rbm))"
    unfolding n by (simp add: reconnect_def)
  show ?thesis
    apply (intro conjI)
         apply (rule n)
        apply (rule sy)
       apply (rule ra)
      apply (rule iv)
     apply (rule d)
    apply (rule rc)
    done
qed

theorem New_malformed_reconnect_times_witness:
  "Getenv env_bad ''SRV_RMQ_URI'' \<noteq> [] \<and>
   Getenv env_bad ''SRV_RMQ_MAXX_RECONNECT_TIMES'' = ''three'' \<and>
   ''three'' \<noteq> [] \<and>
   \<not> valid_integer ''three'' \<and>
   length ''three'' < 19 \<and>
   Atoi ''three'' = (0, Some ErrSyntax) \<and>
   New env_bad cfg0 =
     (Returned (fresh\<lparr>conf := \<lparr>RMQ_URI = ''amqp://localhost:5672/'',
                                RMQ_MAXX_RECONNECT_TIMES = 0\<rparr>\<rparr>), []) \<and>
   attempts (reconnect broker_down
      (fresh\<lparr>conf := \<lparr>RMQ_URI = ''amqp://localhost:5672/'',
                        RMQ_MAXX_RECONNECT_TIMES = 0\<rparr>\<rparr>)) = 0"
proof -
  have u: "Getenv env_bad ''SRV_RMQ_URI'' \<noteq> []"
    by (simp add: Getenv_def env_bad_def)
  have u': "Getenv env_bad ''SRV_RMQ_URI'' = ''amqp://localhost:5672/''"
    by (simp add: Getenv_def env_bad_def)
  have m: "Getenv env_bad ''SRV_RMQ_MAXX_RECONNECT_TIMES'' = ''three''"
    by (simp add: Getenv_def env_bad_def)
  have ne: "''three'' \<noteq> []" by simp
  have v: "\<not> valid_integer ''three''"
    by (simp add: valid_integer_def is_digit_def)
  have l: "length ''three'' < 19" by simp
  note t = New_malformed_reconnect_times [OF u m ne, of cfg0]
  from t v l have a: "Atoi ''three'' = (0, Some ErrSyntax)" by blast
  from t have "New env_bad cfg0 =
       (Returned \<lparr>conn = None, channel = None,
                  conf = cfg0\<lparr>RMQ_URI := Getenv env_bad ''SRV_RMQ_URI'',
                              RMQ_MAXX_RECONNECT_TIMES := fst (Atoi ''three'')\<rparr>,
                  err = [], MAXX_RECONNECT_TIMES = 0\<rparr>, [])"
    by blast
  then have n: "New env_bad cfg0 =
     (Returned (fresh\<lparr>conf := \<lparr>RMQ_URI = ''amqp://localhost:5672/'',
                                RMQ_MAXX_RECONNECT_TIMES = 0\<rparr>\<rparr>), [])"
    unfolding a u' by (simp add: cfg0_def fresh_def)
  from t have rq: "fst (Atoi ''three'') = 0 \<longrightarrow>
        (\<forall>rbm broker. fst (New env_bad cfg0) = Returned rbm \<longrightarrow>
           attempts (reconnect broker rbm) = 0 \<and> \<not> reconnected (reconnect broker rbm))"
    by blast
  have f0: "fst (Atoi ''three'') = 0" unfolding a by simp
  have fn: "fst (New env_bad cfg0) =
      Returned (fresh\<lparr>conf := \<lparr>RMQ_URI = ''amqp://localhost:5672/'',
                                 RMQ_MAXX_RECONNECT_TIMES = 0\<rparr>\<rparr>)"
    unfolding n by simp
  from rq f0 fn have r: "attempts (reconnect broker_down
      (fresh\<lparr>conf := \<lparr>RMQ_URI = ''amqp://localhost:5672/'',
                        RMQ_MAXX_RECONNECT_TIMES = 0\<rparr>\<rparr>)) = 0"
    by blast
  from u m ne v l a n r show ?thesis by blast
qed

subsection \<open>Connect and the handles\<close>

lemma Connect_ok_handles:
  "error (Connect lib rbm) = None \<Longrightarrow>
     conn (pool (Connect lib rbm)) \<noteq> None \<and> channel (pool (Connect lib rbm)) \<noteq> None"
  by (simp add: Connect_def split: goresult.splits)

lemma run_Connected:
  "run libs (rbm, st) = (rbm', Connected) \<Longrightarrow>
     (st = Connected \<longrightarrow> conn rbm \<noteq> None \<and> channel rbm \<noteq> None) \<Longrightarrow>
     conn rbm' \<noteq> None \<and> channel rbm' \<noteq> None"
proof (induction libs arbitrary: rbm st)
  case Nil
  then show ?case by simp
next
  case (Cons lib libs)
  let ?r = "Connect lib rbm"
  let ?st = "if error ?r = None then Connected else Disconnected"
  from Cons.prems(1) have "run libs (pool ?r, ?st) = (rbm', Connected)"
    by (simp add: Let_def GetConnect_def)
  moreover have "?st = Connected \<longrightarrow> conn (pool ?r) \<noteq> None \<and> channel (pool ?r) \<noteq> None"
    using Connect_ok_handles [of lib rbm] by auto
  ultimately show ?case by (rule Cons.IH)
qed

text \<open>
  C2 as the spec states it: a \<^verbatim>\<open>Connect\<close> that fails leaves both handles null. It does not
  when the channel cannot be opened: the connection just dialled stays in the pool.
\<close>

theorem Connect_failure_counterexample:
  "error (Connect lib_no_channel fresh) = Some ''channel refused'' \<and>
   conn (pool (Connect lib_no_channel fresh)) = Some 1 \<and>
   channel (pool (Connect lib_no_channel fresh)) = None \<and>
   \<not> (conn (pool (Connect lib_no_channel fresh)) = None \<and>
      channel (pool (Connect lib_no_channel fresh)) = None)"
  by (simp add: Connect_def lib_no_channel_def fresh_def)

text \<open>
  C2, amended. A failing \<^verbatim>\<open>Connect\<close> returns the error of the step that failed, and it
  fails only when the dial or the channel-open fails. When the dial fails, the
  connection handle is the pointer the dial returned and the channel handle is left as
  it was. When the channel-open fails, the connection handle is the connection just
  dialled and the channel handle is the pointer the channel-open returned.
\<close>

theorem Connect_failure:
  "(Dial lib (RMQ_URI (conf rbm)) = Failed c e \<longrightarrow>
      error (Connect lib rbm) = Some e \<and>
      conn (pool (Connect lib rbm)) = c \<and>
      channel (pool (Connect lib rbm)) = channel rbm) \<and>
   (Dial lib (RMQ_URI (conf rbm)) = Opened c' \<and> Channel lib c' = Failed ch e' \<longrightarrow>
      error (Connect lib rbm) = Some e' \<and>
      conn (pool (Connect lib rbm)) = Some c' \<and>
      channel (pool (Connect lib rbm)) = ch) \<and>
   (error (Connect lib rbm) \<noteq> None \<longrightarrow>
      (\<exists>p x. Dial lib (RMQ_URI (conf rbm)) = Failed p x) \<or>
      (\<exists>k p x. Dial lib (RMQ_URI (conf rbm)) = Opened k \<and> Channel lib k = Failed p x))"
  by (auto simp: Connect_def split: goresult.splits)

theorem Connect_failure_witness:
  "Dial lib_down (RMQ_URI (conf fresh)) = Failed None ''connection refused'' \<and>
   error (Connect lib_down fresh) = Some ''connection refused'' \<and>
   conn (pool (Connect lib_down fresh)) = None \<and>
   channel (pool (Connect lib_down fresh)) = None \<and>
   Dial lib_no_channel (RMQ_URI (conf fresh)) = Opened 1 \<and>
   Channel lib_no_channel 1 = Failed None ''channel refused'' \<and>
   error (Connect lib_no_channel fresh) = Some ''channel refused'' \<and>
   conn (pool (Connect lib_no_channel fresh)) = Some 1"
  using Connect_failure [of lib_down fresh None "''connection refused''" 0 None "''x''"]
    Connect_failure [of lib_no_channel fresh None "''x''" 1 None "''channel refused''"]
  by (simp add: lib_down_def lib_no_channel_def fresh_def)

text \<open>
  C3 as the spec states it: whenever the manager is Disconnected both handles are null.
  After a \<^verbatim>\<open>Connect\<close> whose channel-open failed the manager is Disconnected and holds a
  connection handle.
\<close>

theorem manager_invariant_counterexample:
  "fst (New env_uri cfg0) = Returned fresh \<and>
   snd (run [lib_no_channel] (fresh, Disconnected)) = Disconnected \<and>
   conn (fst (run [lib_no_channel] (fresh, Disconnected))) = Some 1 \<and>
   channel (fst (run [lib_no_channel] (fresh, Disconnected))) = None"
  by (simp add: New_env_uri Connect_def GetConnect_def lib_no_channel_def fresh_def Let_def)

text \<open>
  C3, amended. The pool has one field for the connection handle and one for the channel
  handle. After any sequence of \<^verbatim>\<open>Connect\<close> calls on a pool built by \<^verbatim>\<open>New\<close>: whenever the
  manager is Connected both handles are non-null; and before the first call the manager
  is Disconnected with both handles null.
\<close>

theorem manager_invariant:
  assumes "fst (New env cfg) = Returned rbm"
    and "run libs (rbm, Disconnected) = (rbm', st)"
  shows "(st = Connected \<longrightarrow> conn rbm' \<noteq> None \<and> channel rbm' \<noteq> None) \<and>
         (libs = [] \<longrightarrow> st = Disconnected \<and> conn rbm' = None \<and> channel rbm' = None)"
proof -
  from assms(1) have z: "conn rbm = None \<and> channel rbm = None"
    by (auto simp: New_def Let_def split: if_splits)
  have "st = Connected \<longrightarrow> conn rbm' \<noteq> None \<and> channel rbm' \<noteq> None"
    using run_Connected [of libs rbm Disconnected rbm'] assms(2) by auto
  moreover have "libs = [] \<longrightarrow> st = Disconnected \<and> conn rbm' = None \<and> channel rbm' = None"
    using assms(2) z by auto
  ultimately show ?thesis by blast
qed

theorem manager_invariant_witness:
  "fst (New env_uri cfg0) = Returned fresh \<and>
   run [lib_down, lib_ok] (fresh, Disconnected) = (fresh\<lparr>conn := Some 1, channel := Some 2\<rparr>, Connected) \<and>
   run [] (fresh, Disconnected) = (fresh, Disconnected) \<and>
   conn fresh = None \<and> channel fresh = None"
proof -
  have n: "fst (New env_uri cfg0) = Returned fresh" by (simp add: New_env_uri)
  have r: "run [lib_down, lib_ok] (fresh, Disconnected) =
             (fresh\<lparr>conn := Some 1, channel := Some 2\<rparr>, Connected)"
    by (simp add: Connect_def GetConnect_def lib_down_def lib_ok_def fresh_def Let_def)
  have e: "run [] (fresh, Disconnected) = (fresh, Disconnected)" by simp
  show ?thesis
    using manager_invariant [OF n r] manager_invariant [OF n e] n r
    by simp
qed

text \<open>
  C4 as the spec states it: the accessor returns an error unless the manager is
  Connected and never hands out a handle while disconnected. \<^verbatim>\<open>GetConnect\<close> has no
  error result: on a manager that was never connected it returns the pool with a null
  channel, and after a connect followed by a failed dial the manager is Disconnected and
  the pool returned still carries the earlier channel handle.
\<close>

theorem GetConnect_counterexample:
  "snd (run [lib_ok, lib_down] (fresh, Disconnected)) = Disconnected \<and>
   channel (GetConnect (fst (run [lib_ok, lib_down] (fresh, Disconnected)))) = Some 2 \<and>
   conn (GetConnect (fst (run [lib_ok, lib_down] (fresh, Disconnected)))) = None \<and>
   GetConnect fresh = fresh \<and> channel (GetConnect fresh) = None"
  by (simp add: Connect_def GetConnect_def lib_down_def lib_ok_def fresh_def Let_def)

text \<open>
  C4, amended. \<^verbatim>\<open>GetConnect\<close> returns the manager itself whatever its state, and no
  error. After a \<^verbatim>\<open>Connect\<close> whose dial and channel-open succeeded, the channel handle of
  the pool it returns is the channel that \<^verbatim>\<open>Connect\<close> opened; whenever the manager is
  Connected, the pool it returns carries a channel handle.
\<close>

theorem GetConnect_returns_manager:
  "GetConnect rbm = rbm \<and>
   (Dial lib (RMQ_URI (conf rbm)) = Opened c \<and> Channel lib c = Opened ch \<longrightarrow>
      error (Connect lib rbm) = None \<and>
      channel (GetConnect (pool (Connect lib rbm))) = Some ch) \<and>
   (run libs (rbm, Disconnected) = (rbm', Connected) \<longrightarrow>
      (\<exists>h. channel (GetConnect rbm') = Some h))"
proof -
  have "run libs (rbm, Disconnected) = (rbm', Connected) \<longrightarrow> channel rbm' \<noteq> None"
    using run_Connected [of libs rbm Disconnected rbm'] by auto
  then show ?thesis
    by (auto simp: GetConnect_def Connect_def)
qed

theorem GetConnect_returns_manager_witness:
  "Dial lib_ok (RMQ_URI (conf fresh)) = Opened 1 \<and> Channel lib_ok 1 = Opened 2 \<and>
   error (Connect lib_ok fresh) = None \<and>
   channel (GetConnect (pool (Connect lib_ok fresh))) = Some 2 \<and>
   run [lib_ok] (fresh, Disconnected) = (connected, Connected) \<and>
   channel (GetConnect connected) = Some 2"
proof -
  have r: "run [lib_ok] (fresh, Disconnected) = (connected, Connected)"
    by (simp add: Connect_def GetConnect_def lib_ok_def fresh_def connected_def Let_def)
  show ?thesis
    using GetConnect_returns_manager [of fresh lib_ok 1 2 "[lib_ok]" connected] r
    by (simp add: lib_ok_def connected_def GetConnect_def)
qed

subsection \<open>The reconnect policy\<close>

lemma reconnect_attempts_count:
  "reconnect_attempts broker k n rbm = (rbm', k', ok) \<Longrightarrow>
     k \<le> k' \<and> k' \<le> k + n \<and> (\<not> ok \<longrightarrow> k' = k + n)"
proof (induction n arbitrary: k rbm)
  case 0
  then show ?case by simp
next
  case (Suc n)
  show ?case
  proof (cases "error (Connect (broker k) rbm) = None")
    case True
    with Suc.prems show ?thesis by (auto simp: Let_def)
  next
    case False
    with Suc.prems have
      "reconnect_attempts broker (Suc k) n (pool (Connect (broker k) rbm)) = (rbm', k', ok)"
      by (simp add: Let_def)
    from Suc.IH [OF this] show ?thesis by auto
  qed
qed

lemma reconnect_attempts_ok:
  "reconnect_attempts broker k n rbm = (rbm', k', True) \<Longrightarrow>
     conn rbm' \<noteq> None \<and> channel rbm' \<noteq> None"
proof (induction n arbitrary: k rbm)
  case 0
  then show ?case by simp
next
  case (Suc n)
  show ?case
  proof (cases "error (Connect (broker k) rbm) = None")
    case True
    with Suc.prems have "rbm' = pool (Connect (broker k) rbm)" by (auto simp: Let_def)
    with True show ?thesis using Connect_ok_handles by blast
  next
    case False
    with Suc.prems have
      "reconnect_attempts broker (Suc k) n (pool (Connect (broker k) rbm)) = (rbm', k', True)"
      by (simp add: Let_def)
    from Suc.IH [OF this] show ?thesis .
  qed
qed

text \<open>
  C5. One reconnect cycle runs at most N \<^verbatim>\<open>Connect()\<close> sequences, N the configured maximum
  (no attempt at all when it is not positive), so attempt N+1 never occurs. A cycle
  that exhausts its attempts has run exactly N of them, leaves the manager with both
  handles null and hands one ConnectionError to the failure observer; a cycle that
  reconnects hands it nothing. The maximum of a pool built by \<^verbatim>\<open>New\<close> is 3 when
  \<^verbatim>\<open>SRV_RMQ_MAXX_RECONNECT_TIMES\<close> is unset or empty, else what \<^verbatim>\<open>Atoi\<close> makes of it.
\<close>

theorem reconnect_bounded:
  "attempts (reconnect broker rbm) \<le> nat (RMQ_MAXX_RECONNECT_TIMES (conf rbm)) \<and>
   int (attempts (reconnect broker rbm)) < max 0 (RMQ_MAXX_RECONNECT_TIMES (conf rbm)) + 1 \<and>
   (\<not> reconnected (reconnect broker rbm) \<longrightarrow>
      attempts (reconnect broker rbm) = nat (RMQ_MAXX_RECONNECT_TIMES (conf rbm)) \<and>
      conn (manager (reconnect broker rbm)) = None \<and>
      channel (manager (reconnect broker rbm)) = None \<and>
      observed (reconnect broker rbm) = [ConnectionError]) \<and>
   (reconnected (reconnect broker rbm) \<longrightarrow>
      conn (manager (reconnect broker rbm)) \<noteq> None \<and>
      channel (manager (reconnect broker rbm)) \<noteq> None \<and>
      observed (reconnect broker rbm) = []) \<and>
   (fst (New env cfg) = Returned rbm \<longrightarrow>
      RMQ_MAXX_RECONNECT_TIMES (conf rbm) =
        (if Getenv env ''SRV_RMQ_MAXX_RECONNECT_TIMES'' = [] then 3
         else fst (Atoi (Getenv env ''SRV_RMQ_MAXX_RECONNECT_TIMES''))))"
proof -
  obtain rbm' k ok where
    ra: "reconnect_attempts broker 0 (nat (RMQ_MAXX_RECONNECT_TIMES (conf rbm))) rbm = (rbm', k, ok)"
    by (cases "reconnect_attempts broker 0 (nat (RMQ_MAXX_RECONNECT_TIMES (conf rbm))) rbm") auto
  from reconnect_attempts_count [OF ra]
  have k: "k \<le> nat (RMQ_MAXX_RECONNECT_TIMES (conf rbm))"
    and kx: "\<not> ok \<longrightarrow> k = nat (RMQ_MAXX_RECONNECT_TIMES (conf rbm))" by auto
  have hs: "ok \<longrightarrow> conn rbm' \<noteq> None \<and> channel rbm' \<noteq> None"
    using reconnect_attempts_ok [of broker 0 _ rbm rbm' k] ra by (cases ok) auto
  have n: "fst (New env cfg) = Returned rbm \<longrightarrow>
      RMQ_MAXX_RECONNECT_TIMES (conf rbm) =
        (if Getenv env ''SRV_RMQ_MAXX_RECONNECT_TIMES'' = [] then 3
         else fst (Atoi (Getenv env ''SRV_RMQ_MAXX_RECONNECT_TIMES'')))"
    by (auto simp: New_def Let_def DEFAULT_MAX_RECONNECT_TIMES_def split: if_splits)
  show ?thesis using k kx hs n ra
    by (auto simp: reconnect_def)
qed

theorem reconnect_bounded_witness:
  "attempts (reconnect broker_down fresh) = 3 \<and>
   \<not> reconnected (reconnect broker_down fresh) \<and>
   conn (manager (reconnect broker_down fresh)) = None \<and>
   channel (manager (reconnect broker_down fresh)) = None \<and>
   observed (reconnect broker_down fresh) = [ConnectionError] \<and>
   fst (New env_uri cfg0) = Returned fresh \<and>
   Getenv env_uri ''SRV_RMQ_MAXX_RECONNECT_TIMES'' = [] \<and>
   RMQ_MAXX_RECONNECT_TIMES (conf fresh) = 3"
proof -
  have nr: "\<not> reconnected (reconnect broker_down fresh)"
    by (simp add: reconnect_def fresh_def broker_down_def lib_down_def Connect_def Let_def
        numeral_3_eq_3)
  have new: "fst (New env_uri cfg0) = Returned fresh"
    by (simp add: New_env_uri)
  have n3: "nat (RMQ_MAXX_RECONNECT_TIMES (conf fresh)) = 3"
    by (simp add: fresh_def)
  have ge: "Getenv env_uri ''SRV_RMQ_MAXX_RECONNECT_TIMES'' = []"
    by (simp add: Getenv_def env_uri_def)
  show ?thesis
    using reconnect_bounded [of broker_down fresh env_uri cfg0] nr new n3 ge
    by (simp add: fresh_def)
qed

subsection \<open>Ending the hosting process\<close>




subsection \<open>Conditional create\<close>

text \<open>
  C9. \<^verbatim>\<open>UploadBlobBuffer\<close> and \<^verbatim>\<open>UploadBlobStream\<close> send their write with the access
  condition \<^verbatim>\<open>If-None-Match: *\<close>. When a blob is already at the target name they return
  an error and the stored blobs are unchanged; when they succeed the name was unoccupied
  and now holds the data; and on an unoccupied name they succeed unless the service
  itself is at fault.
\<close>

theorem upload_conditional_create:
  "(blobs az (containerName, blobName) \<noteq> None \<longrightarrow>
      snd (UploadBlobBuffer az blobName containerName data) \<noteq> None \<and>
      blobs (fst (UploadBlobBuffer az blobName containerName data)) = blobs az \<and>
      snd (UploadBlobStream az blobName containerName data) \<noteq> None \<and>
      blobs (fst (UploadBlobStream az blobName containerName data)) = blobs az) \<and>
   (snd (UploadBlobBuffer az blobName containerName data) = None \<longrightarrow>
      blobs az (containerName, blobName) = None \<and>
      blobs (fst (UploadBlobBuffer az blobName containerName data)) =
        (blobs az)((containerName, blobName) \<mapsto> \<lparr>content = data, etag = clock az\<rparr>)) \<and>
   (snd (UploadBlobStream az blobName containerName data) = None \<longrightarrow>
      blobs az (containerName, blobName) = None \<and>
      blobs (fst (UploadBlobStream az blobName containerName data)) =
        (blobs az)((containerName, blobName) \<mapsto> \<lparr>content = data, etag = clock az\<rparr>)) \<and>
   (blobs az (containerName, blobName) = None \<and> fault az = None \<longrightarrow>
      snd (UploadBlobBuffer az blobName containerName data) = None \<and>
      snd (UploadBlobStream az blobName containerName data) = None) \<and>
   requests (fst (UploadBlobBuffer az blobName containerName data)) =
     requests az @ [\<lparr>put_container = containerName, put_blob = blobName,
                     put_conditions = \<lparr>IfNoneMatch = Some ETagAny\<rparr>\<rparr>] \<and>
   requests (fst (UploadBlobStream az blobName containerName data)) =
     requests az @ [\<lparr>put_container = containerName, put_blob = blobName,
                     put_conditions = \<lparr>IfNoneMatch = Some ETagAny\<rparr>\<rparr>]"
proof -
  have b: "(blobs az (containerName, blobName) \<noteq> None \<longrightarrow>
      snd (UploadBlobBuffer az blobName containerName data) \<noteq> None \<and>
      blobs (fst (UploadBlobBuffer az blobName containerName data)) = blobs az) \<and>
    (snd (UploadBlobBuffer az blobName containerName data) = None \<longrightarrow>
      blobs az (containerName, blobName) = None \<and>
      blobs (fst (UploadBlobBuffer az blobName containerName data)) =
        (blobs az)((containerName, blobName) \<mapsto> \<lparr>content = data, etag = clock az\<rparr>)) \<and>
    (blobs az (containerName, blobName) = None \<and> fault az = None \<longrightarrow>
      snd (UploadBlobBuffer az blobName containerName data) = None) \<and>
    requests (fst (UploadBlobBuffer az blobName containerName data)) =
     requests az @ [\<lparr>put_container = containerName, put_blob = blobName,
                     put_conditions = \<lparr>IfNoneMatch = Some ETagAny\<rparr>\<rparr>]"
    by (auto simp: UploadBlobBuffer_def service_put_def condition_fails_def Let_def
        split: option.splits if_splits)
  have s: "(blobs az (containerName, blobName) \<noteq> None \<longrightarrow>
      snd (UploadBlobStream az blobName containerName data) \<noteq> None \<and>
      blobs (fst (UploadBlobStream az blobName containerName data)) = blobs az) \<and>
    (snd (UploadBlobStream az blobName containerName data) = None \<longrightarrow>
      blobs az (containerName, blobName) = None \<and>
      blobs (fst (UploadBlobStream az blobName containerName data)) =
        (blobs az)((containerName, blobName) \<mapsto> \<lparr>content = data, etag = clock az\<rparr>)) \<and>
    (blobs az (containerName, blobName) = None \<and> fault az = None \<longrightarrow>
      snd (UploadBlobStream az blobName containerName data) = None) \<and>
    requests (fst (UploadBlobStream az blobName containerName data)) =
     requests az @ [\<lparr>put_container = containerName, put_blob = blobName,
                     put_conditions = \<lparr>IfNoneMatch = Some ETagAny\<rparr>\<rparr>]"
    by (auto simp: UploadBlobStream_def service_put_def condition_fails_def Let_def
        split: option.splits if_splits)
  show ?thesis using b s by blast
qed

theorem upload_conditional_create_witness:
  "blobs az1 (''docs'', ''a.txt'') \<noteq> None \<and>
   snd (UploadBlobBuffer az1 ''a.txt'' ''docs'' ''new'') =
     Some ''error uploading a buffer blob: BlobAlreadyExists'' \<and>
   snd (UploadBlobStream az1 ''a.txt'' ''docs'' ''new'') =
     Some ''error uploading a stream blob: BlobAlreadyExists'' \<and>
   blobs (fst (UploadBlobBuffer az1 ''a.txt'' ''docs'' ''new'')) = blobs az1 \<and>
   blobs az0 (''docs'', ''a.txt'') = None \<and> fault az0 = None \<and>
   snd (UploadBlobBuffer az0 ''a.txt'' ''docs'' ''new'') = None \<and>
   snd (UploadBlobStream az0 ''a.txt'' ''docs'' ''new'') = None \<and>
   blobs (fst (UploadBlobBuffer az0 ''a.txt'' ''docs'' ''new'')) (''docs'', ''a.txt'') =
     Some \<lparr>content = ''new'', etag = 0\<rparr>"
  using upload_conditional_create [of az1 "''docs''" "''a.txt''" "''new''"]
    upload_conditional_create [of az0 "''docs''" "''a.txt''" "''new''"]
  by (simp add: az0_def az1_def UploadBlobBuffer_def UploadBlobStream_def service_put_def
      condition_fails_def)

subsection \<open>Topology declaration\<close>

lemma exchange_declares_append [simp]:
  "exchange_declares (xs @ ys) = exchange_declares xs @ exchange_declares ys"
  by (induction xs rule: exchange_declares.induct) auto

lemma queue_declares_append [simp]:
  "queue_declares (xs @ ys) = queue_declares xs @ queue_declares ys"
  by (induction xs rule: queue_declares.induct) auto

subsubsection \<open>What one declaration sends\<close>

lemma SimpleExchangeDeclare_wire:
  "channel rbm \<noteq> None \<Longrightarrow>
     wire (fst (SimpleExchangeDeclare rbm b se)) = wire b @ [ExchangeDeclare (exchange_name se)]"
  by (auto simp: SimpleExchangeDeclare_def GetConnect_def broker_exchange_declare_def Let_def
      split: option.splits prod.splits if_splits)

lemma apply_binds_wire:
  "\<exists>ops. wire (fst (apply_binds b qn bds)) = wire b @ ops \<and>
         exchange_declares ops = [] \<and> queue_declares ops = []"
proof (induction bds arbitrary: b)
  case Nil
  then show ?case by simp
next
  case (Cons bd bds)
  let ?b1 = "fst (broker_queue_bind b qn bd)"
  have w1: "wire ?b1 = wire b @ [QueueBind qn (bind_exchange bd) (bind_key bd)]"
    by (simp add: broker_queue_bind_def Let_def)
  show ?case
  proof (cases "snd (broker_queue_bind b qn bd)")
    case True
    from Cons.IH [of ?b1] obtain ops where
      "wire (fst (apply_binds ?b1 qn bds)) = wire ?b1 @ ops"
      "exchange_declares ops = []" "queue_declares ops = []" by blast
    with w1 True show ?thesis
      by (auto simp: split_beta intro!: exI [of _ "QueueBind qn (bind_exchange bd) (bind_key bd) # ops"])
  next
    case False
    with w1 show ?thesis
      by (auto simp: split_beta intro!: exI [of _ "[QueueBind qn (bind_exchange bd) (bind_key bd)]"])
  qed
qed

lemma SimpleQueueDeclare_wire:
  assumes "channel rbm \<noteq> None"
  shows "\<exists>ops. wire (fst (SimpleQueueDeclare rbm b sq)) = wire b @ QueueDeclare (queue_name sq) # ops \<and>
         exchange_declares ops = [] \<and> queue_declares ops = []"
proof -
  let ?b1 = "fst (broker_queue_declare b sq)"
  have w1: "wire ?b1 = wire b @ [QueueDeclare (queue_name sq)]"
    by (simp add: broker_queue_declare_def Let_def split: option.splits)
  show ?thesis
  proof (cases "snd (broker_queue_declare b sq)")
    case False
    with assms w1 show ?thesis
      by (auto simp: SimpleQueueDeclare_def GetConnect_def split_beta)
  next
    case True
    from apply_binds_wire [of ?b1 "queue_name sq" "queue_binds sq"] obtain ops where
      "wire (fst (apply_binds ?b1 (queue_name sq) (queue_binds sq))) = wire ?b1 @ ops"
      "exchange_declares ops = []" "queue_declares ops = []" by blast
    with assms w1 True show ?thesis
      by (auto simp: SimpleQueueDeclare_def GetConnect_def split_beta)
  qed
qed

subsubsection \<open>What a batch sends and returns\<close>

lemma CompleteExchangeDeclare_wire:
  "channel rbm \<noteq> None \<Longrightarrow>
     wire (fst (CompleteExchangeDeclare rbm b ce)) =
       wire b @ map (\<lambda>se. ExchangeDeclare (exchange_name se)) ce"
proof (induction ce arbitrary: b)
  case Nil
  then show ?case by simp
next
  case (Cons se ce)
  from Cons.IH [OF Cons.prems, of "fst (SimpleExchangeDeclare rbm b se)"]
    SimpleExchangeDeclare_wire [OF Cons.prems, of b se]
  show ?case by (simp add: split_beta)
qed

lemma CompleteQueueDeclare_wire:
  "channel rbm \<noteq> None \<Longrightarrow>
     \<exists>ops. wire (fst (CompleteQueueDeclare rbm b cq)) = wire b @ ops \<and>
           exchange_declares ops = [] \<and> queue_declares ops = map queue_name cq"
proof (induction cq arbitrary: b)
  case Nil
  then show ?case by simp
next
  case (Cons sq cq)
  let ?b1 = "fst (SimpleQueueDeclare rbm b sq)"
  from SimpleQueueDeclare_wire [OF Cons.prems, of b sq] obtain ops1 where
    o1: "wire ?b1 = wire b @ QueueDeclare (queue_name sq) # ops1"
    "exchange_declares ops1 = []" "queue_declares ops1 = []" by blast
  from Cons.IH [OF Cons.prems, of ?b1] obtain ops2 where
    o2: "wire (fst (CompleteQueueDeclare rbm ?b1 cq)) = wire ?b1 @ ops2"
    "exchange_declares ops2 = []" "queue_declares ops2 = map queue_name cq" by blast
  have "wire (fst (CompleteQueueDeclare rbm b (sq # cq))) =
          wire b @ (QueueDeclare (queue_name sq) # ops1 @ ops2)"
    using o1(1) o2(1) by (simp add: split_beta)
  moreover have "exchange_declares (QueueDeclare (queue_name sq) # ops1 @ ops2) = []"
    using o1(2) o2(2) by simp
  moreover have "queue_declares (QueueDeclare (queue_name sq) # ops1 @ ops2) =
      map queue_name (sq # cq)"
    using o1(3) o2(3) by simp
  ultimately show ?case by blast
qed

lemma sent_wire: "wire b' = wire b @ ops \<Longrightarrow> sent b b' = ops"
  by (simp add: sent_def)

lemma CompleteExchangeDeclare_errors:
  "snd (CompleteExchangeDeclare rbm b ce) =
     exchange_errors (exchange_outcomes rbm b ce)"
  by (induction ce arbitrary: b) (auto simp: split_beta exchange_errors_def)

lemma CompleteQueueDeclare_errors:
  "snd (CompleteQueueDeclare rbm b cq) =
     queue_errors (queue_outcomes rbm b cq)"
  by (induction cq arbitrary: b) (auto simp: split_beta queue_errors_def)

lemma exchange_outcomes_length: "length (exchange_outcomes rbm b ce) = length ce"
  by (induction ce arbitrary: b) auto

lemma queue_outcomes_length: "length (queue_outcomes rbm b cq) = length cq"
  by (induction cq arbitrary: b) auto

lemma CompleteExchangeDeclare_append:
  "CompleteExchangeDeclare rbm b (xs @ ys) =
     (fst (CompleteExchangeDeclare rbm (fst (CompleteExchangeDeclare rbm b xs)) ys),
      snd (CompleteExchangeDeclare rbm b xs) @
      snd (CompleteExchangeDeclare rbm (fst (CompleteExchangeDeclare rbm b xs)) ys))"
  by (induction xs arbitrary: b) (auto simp: split_beta)

lemma CompleteQueueDeclare_append:
  "CompleteQueueDeclare rbm b (xs @ ys) =
     (fst (CompleteQueueDeclare rbm (fst (CompleteQueueDeclare rbm b xs)) ys),
      snd (CompleteQueueDeclare rbm b xs) @
      snd (CompleteQueueDeclare rbm (fst (CompleteQueueDeclare rbm b xs)) ys))"
  by (induction xs arbitrary: b) (auto simp: split_beta)

lemma exchange_errors_Nil: "exchange_errors rs = [] \<longleftrightarrow> (\<forall>r \<in> set rs. r = None)"
  by (induction rs) (auto simp: exchange_errors_def split: option.splits)

lemma queue_errors_Nil: "queue_errors rs = [] \<longleftrightarrow> (\<forall>r \<in> set rs. \<not> isl r)"
  by (induction rs) (auto simp: queue_errors_def split: sum.splits)

lemma CompleteDeclare_parts:
  "CompleteDeclare rbm b cq ce =
     (fst (CompleteQueueDeclare rbm (fst (CompleteExchangeDeclare rbm b ce)) cq),
      snd (CompleteExchangeDeclare rbm b ce) @
      snd (CompleteQueueDeclare rbm (fst (CompleteExchangeDeclare rbm b ce)) cq))"
  by (simp add: CompleteDeclare_def split_beta)

lemma CompleteDeclare_wire:
  assumes "channel rbm \<noteq> None"
  shows "wire (fst (CompleteDeclare rbm b cq ce)) =
           wire b @ map (\<lambda>se. ExchangeDeclare (exchange_name se)) ce @
           sent (fst (CompleteExchangeDeclare rbm b ce)) (fst (CompleteDeclare rbm b cq ce)) \<and>
         exchange_declares
           (sent (fst (CompleteExchangeDeclare rbm b ce)) (fst (CompleteDeclare rbm b cq ce))) = [] \<and>
         queue_declares
           (sent (fst (CompleteExchangeDeclare rbm b ce)) (fst (CompleteDeclare rbm b cq ce))) =
           map queue_name cq"
proof -
  let ?b1 = "fst (CompleteExchangeDeclare rbm b ce)"
  let ?b2 = "fst (CompleteDeclare rbm b cq ce)"
  have b2: "?b2 = fst (CompleteQueueDeclare rbm ?b1 cq)"
    by (simp add: CompleteDeclare_parts)
  from CompleteQueueDeclare_wire [OF assms, of ?b1 cq] obtain ops where
    o: "wire (fst (CompleteQueueDeclare rbm ?b1 cq)) = wire ?b1 @ ops"
    "exchange_declares ops = []" "queue_declares ops = map queue_name cq" by blast
  from o(1) b2 have s: "sent ?b1 ?b2 = ops"
    using sent_wire [of ?b2 ?b1 ops] by simp
  from o(1) b2 CompleteExchangeDeclare_wire [OF assms, of b ce] s
  have "wire ?b2 = wire b @ map (\<lambda>se. ExchangeDeclare (exchange_name se)) ce @ sent ?b1 ?b2"
    by simp
  with s o(2,3) show ?thesis by simp
qed

lemma exchange_declares_map:
  "exchange_declares (map (\<lambda>se. ExchangeDeclare (exchange_name se)) ce) = map exchange_name ce"
  by (induction ce) auto

lemma queue_declares_map:
  "queue_declares (map (\<lambda>se. ExchangeDeclare (exchange_name se)) ce) = []"
  by (induction ce) auto

text \<open>
  C7. The batch declarations never abort early. At every position of the list, the
  spec there is declared on the broker as the specs before it left it, whether they
  failed or not, its error (if it fails) comes after the errors of the earlier specs and
  before those of the later ones, and the later specs are declared all the same. So the
  list returned holds exactly the errors of the failing specs in input order, one answer
  per spec, and is empty exactly when every spec succeeded; \<^verbatim>\<open>CompleteDeclare\<close> returns the
  errors of its exchanges followed by those of its queues. On a connected manager every
  spec of the list reaches the broker, in input order.
\<close>

theorem batch_declares_never_abort:
  "snd (CompleteQueueDeclare rbm b (xs @ sq # ys)) =
     snd (CompleteQueueDeclare rbm b xs) @
     (case snd (SimpleQueueDeclare rbm (fst (CompleteQueueDeclare rbm b xs)) sq) of
        Inl e \<Rightarrow> [e] | Inr info \<Rightarrow> []) @
     snd (CompleteQueueDeclare rbm
            (fst (SimpleQueueDeclare rbm (fst (CompleteQueueDeclare rbm b xs)) sq)) ys) \<and>
   snd (CompleteExchangeDeclare rbm b (es @ se # fs)) =
     snd (CompleteExchangeDeclare rbm b es) @
     (case snd (SimpleExchangeDeclare rbm (fst (CompleteExchangeDeclare rbm b es)) se) of
        None \<Rightarrow> [] | Some e \<Rightarrow> [e]) @
     snd (CompleteExchangeDeclare rbm
            (fst (SimpleExchangeDeclare rbm (fst (CompleteExchangeDeclare rbm b es)) se)) fs) \<and>
   length (queue_outcomes rbm b cq) = length cq \<and>
   length (exchange_outcomes rbm b ce) = length ce \<and>
   snd (CompleteQueueDeclare rbm b cq) = queue_errors (queue_outcomes rbm b cq) \<and>
   snd (CompleteExchangeDeclare rbm b ce) = exchange_errors (exchange_outcomes rbm b ce) \<and>
   snd (CompleteDeclare rbm b cq ce) =
     exchange_errors (exchange_outcomes rbm b ce) @
     queue_errors (queue_outcomes rbm (fst (CompleteExchangeDeclare rbm b ce)) cq) \<and>
   (snd (CompleteQueueDeclare rbm b cq) = [] \<longleftrightarrow>
      (\<forall>r \<in> set (queue_outcomes rbm b cq). \<not> isl r)) \<and>
   (snd (CompleteExchangeDeclare rbm b ce) = [] \<longleftrightarrow>
      (\<forall>r \<in> set (exchange_outcomes rbm b ce). r = None)) \<and>
   (snd (CompleteDeclare rbm b cq ce) = [] \<longleftrightarrow>
      (\<forall>r \<in> set (exchange_outcomes rbm b ce). r = None) \<and>
      (\<forall>r \<in> set (queue_outcomes rbm (fst (CompleteExchangeDeclare rbm b ce)) cq). \<not> isl r)) \<and>
   (channel rbm \<noteq> None \<longrightarrow>
      queue_declares (sent b (fst (CompleteQueueDeclare rbm b cq))) = map queue_name cq \<and>
      exchange_declares (sent b (fst (CompleteExchangeDeclare rbm b ce))) = map exchange_name ce \<and>
      exchange_declares (sent b (fst (CompleteDeclare rbm b cq ce))) = map exchange_name ce \<and>
      queue_declares (sent b (fst (CompleteDeclare rbm b cq ce))) = map queue_name cq)"
proof -
  have q1: "snd (CompleteQueueDeclare rbm b (xs @ sq # ys)) =
     snd (CompleteQueueDeclare rbm b xs) @
     (case snd (SimpleQueueDeclare rbm (fst (CompleteQueueDeclare rbm b xs)) sq) of
        Inl e \<Rightarrow> [e] | Inr info \<Rightarrow> []) @
     snd (CompleteQueueDeclare rbm
            (fst (SimpleQueueDeclare rbm (fst (CompleteQueueDeclare rbm b xs)) sq)) ys)"
    by (simp add: CompleteQueueDeclare_append split_beta)
  have e1: "snd (CompleteExchangeDeclare rbm b (es @ se # fs)) =
     snd (CompleteExchangeDeclare rbm b es) @
     (case snd (SimpleExchangeDeclare rbm (fst (CompleteExchangeDeclare rbm b es)) se) of
        None \<Rightarrow> [] | Some e \<Rightarrow> [e]) @
     snd (CompleteExchangeDeclare rbm
            (fst (SimpleExchangeDeclare rbm (fst (CompleteExchangeDeclare rbm b es)) se)) fs)"
    by (simp add: CompleteExchangeDeclare_append split_beta)
  have all: "snd (CompleteDeclare rbm b cq ce) =
     exchange_errors (exchange_outcomes rbm b ce) @
     queue_errors (queue_outcomes rbm (fst (CompleteExchangeDeclare rbm b ce)) cq)"
    by (simp add: CompleteDeclare_parts CompleteExchangeDeclare_errors CompleteQueueDeclare_errors)
  have qn: "snd (CompleteQueueDeclare rbm b cq) = [] \<longleftrightarrow>
      (\<forall>r \<in> set (queue_outcomes rbm b cq). \<not> isl r)"
    by (simp add: CompleteQueueDeclare_errors queue_errors_Nil)
  have en: "snd (CompleteExchangeDeclare rbm b ce) = [] \<longleftrightarrow>
      (\<forall>r \<in> set (exchange_outcomes rbm b ce). r = None)"
    by (simp add: CompleteExchangeDeclare_errors exchange_errors_Nil)
  have an: "snd (CompleteDeclare rbm b cq ce) = [] \<longleftrightarrow>
      (\<forall>r \<in> set (exchange_outcomes rbm b ce). r = None) \<and>
      (\<forall>r \<in> set (queue_outcomes rbm (fst (CompleteExchangeDeclare rbm b ce)) cq). \<not> isl r)"
    by (simp add: all exchange_errors_Nil queue_errors_Nil)
  have w: "channel rbm \<noteq> None \<longrightarrow>
      queue_declares (sent b (fst (CompleteQueueDeclare rbm b cq))) = map queue_name cq \<and>
      exchange_declares (sent b (fst (CompleteExchangeDeclare rbm b ce))) = map exchange_name ce \<and>
      exchange_declares (sent b (fst (CompleteDeclare rbm b cq ce))) = map exchange_name ce \<and>
      queue_declares (sent b (fst (CompleteDeclare rbm b cq ce))) = map queue_name cq"
  proof
    assume c: "channel rbm \<noteq> None"
    from CompleteQueueDeclare_wire [OF c, of b cq] obtain ops where
      "wire (fst (CompleteQueueDeclare rbm b cq)) = wire b @ ops"
      "queue_declares ops = map queue_name cq" by blast
    then have a: "queue_declares (sent b (fst (CompleteQueueDeclare rbm b cq))) = map queue_name cq"
      using sent_wire [of "fst (CompleteQueueDeclare rbm b cq)" b ops] by simp
    have "sent b (fst (CompleteExchangeDeclare rbm b ce)) =
        map (\<lambda>se. ExchangeDeclare (exchange_name se)) ce"
      using CompleteExchangeDeclare_wire [OF c, of b ce] by (rule sent_wire)
    then have b: "exchange_declares (sent b (fst (CompleteExchangeDeclare rbm b ce))) =
        map exchange_name ce"
      by (simp add: exchange_declares_map)
    let ?tail = "sent (fst (CompleteExchangeDeclare rbm b ce)) (fst (CompleteDeclare rbm b cq ce))"
    from CompleteDeclare_wire [OF c, of b cq ce]
    have wd: "wire (fst (CompleteDeclare rbm b cq ce)) =
        wire b @ (map (\<lambda>se. ExchangeDeclare (exchange_name se)) ce @ ?tail)"
      and t1: "exchange_declares ?tail = []"
      and t2: "queue_declares ?tail = map queue_name cq"
      by blast+
    from wd have sd: "sent b (fst (CompleteDeclare rbm b cq ce)) =
        map (\<lambda>se. ExchangeDeclare (exchange_name se)) ce @ ?tail"
      by (rule sent_wire)
    have d: "exchange_declares (sent b (fst (CompleteDeclare rbm b cq ce))) = map exchange_name ce"
      unfolding sd by (simp add: exchange_declares_map t1)
    have f: "queue_declares (sent b (fst (CompleteDeclare rbm b cq ce))) = map queue_name cq"
      unfolding sd by (simp add: queue_declares_map t2)
    from a b d f show "queue_declares (sent b (fst (CompleteQueueDeclare rbm b cq))) = map queue_name cq \<and>
      exchange_declares (sent b (fst (CompleteExchangeDeclare rbm b ce))) = map exchange_name ce \<and>
      exchange_declares (sent b (fst (CompleteDeclare rbm b cq ce))) = map exchange_name ce \<and>
      queue_declares (sent b (fst (CompleteDeclare rbm b cq ce))) = map queue_name cq"
      by blast
  qed
  show ?thesis
    apply (intro conjI)
              apply (rule q1)
             apply (rule e1)
            apply (rule queue_outcomes_length)
           apply (rule exchange_outcomes_length)
          apply (rule CompleteQueueDeclare_errors)
         apply (rule CompleteExchangeDeclare_errors)
        apply (rule all)
       apply (rule qn)
      apply (rule en)
     apply (rule an)
    apply (rule w)
    done
qed

text \<open>
  C8. \<^verbatim>\<open>CompleteDeclare\<close> declares all the exchanges, then all the queues on the broker the
  exchanges left, and returns the errors of the exchange phase followed by those of the
  queue phase. On a connected manager the broker receives one exchange declaration per
  exchange spec, in input order, before anything else of the call; what follows holds no
  exchange declaration and holds the declaration of every queue spec, in input order.
\<close>

theorem declare_all_exchanges_first:
  "fst (CompleteDeclare rbm b cq ce) =
     fst (CompleteQueueDeclare rbm (fst (CompleteExchangeDeclare rbm b ce)) cq) \<and>
   snd (CompleteDeclare rbm b cq ce) =
     snd (CompleteExchangeDeclare rbm b ce) @
     snd (CompleteQueueDeclare rbm (fst (CompleteExchangeDeclare rbm b ce)) cq) \<and>
   (channel rbm \<noteq> None \<longrightarrow>
      wire (fst (CompleteDeclare rbm b cq ce)) =
        wire b @ map (\<lambda>se. ExchangeDeclare (exchange_name se)) ce @
        sent (fst (CompleteExchangeDeclare rbm b ce)) (fst (CompleteDeclare rbm b cq ce)) \<and>
      exchange_declares
        (sent (fst (CompleteExchangeDeclare rbm b ce)) (fst (CompleteDeclare rbm b cq ce))) = [] \<and>
      queue_declares
        (sent (fst (CompleteExchangeDeclare rbm b ce)) (fst (CompleteDeclare rbm b cq ce))) =
        map queue_name cq)"
  using CompleteDeclare_wire [of rbm b cq ce]
  by (simp add: CompleteDeclare_parts)

lemmas topology_defs =
  SimpleQueueDeclare_def SimpleExchangeDeclare_def broker_queue_declare_def
  broker_exchange_declare_def broker_queue_bind_def GetConnect_def exchange_kinds_def
  connected_def fresh_def broker0_def orphan_def plain_def bad_exchange_def orders_def
  orders_created_def Let_def sent_def

lemma eval_queues:
  "snd (CompleteQueueDeclare connected broker0 [orphan, plain]) = [DeclarationError ''orphan''] \<and>
   wire (fst (CompleteQueueDeclare connected broker0 [orphan, plain])) =
     [QueueDeclare ''orphan'', QueueBind ''orphan'' ''missing'' ''k'', QueueDeclare ''plain'']"
  by (simp add: topology_defs)

lemma eval_exchanges:
  "snd (CompleteExchangeDeclare connected broker0 [bad_exchange, orders]) =
     [DeclarationError ''audit''] \<and>
   wire (fst (CompleteExchangeDeclare connected broker0 [bad_exchange, orders])) =
     [ExchangeDeclare ''audit'', ExchangeDeclare ''orders'']"
  by (simp add: topology_defs)

lemma eval_all:
  "snd (CompleteDeclare connected broker0 [orders_created] [bad_exchange, orders]) =
     [DeclarationError ''audit''] \<and>
   wire (fst (CompleteDeclare connected broker0 [orders_created] [bad_exchange, orders])) =
     [ExchangeDeclare ''audit'', ExchangeDeclare ''orders'', QueueDeclare ''orders.created'',
      QueueBind ''orders.created'' ''orders'' ''created''] \<and>
   snd (CompleteQueueDeclare connected broker0 [orders_created]) =
     [DeclarationError ''orders.created'']"
  by (simp add: CompleteDeclare_def topology_defs)

theorem batch_declares_never_abort_witness:
  "channel connected \<noteq> None \<and>
   snd (CompleteQueueDeclare connected broker0 ([] @ orphan # [plain])) =
     [DeclarationError ''orphan''] \<and>
   queue_declares (sent broker0 (fst (CompleteQueueDeclare connected broker0 [orphan, plain]))) =
     [''orphan'', ''plain''] \<and>
   snd (CompleteExchangeDeclare connected broker0 ([] @ bad_exchange # [orders])) =
     [DeclarationError ''audit''] \<and>
   exchange_declares
     (sent broker0 (fst (CompleteExchangeDeclare connected broker0 [bad_exchange, orders]))) =
     [''audit'', ''orders''] \<and>
   (\<exists>r \<in> set (queue_outcomes connected broker0 [orphan, plain]). isl r)"
proof -
  note t = batch_declares_never_abort [of connected broker0 "[]" orphan "[plain]"
      "[]" bad_exchange "[orders]" "[orphan, plain]" "[bad_exchange, orders]"]
  have c: "channel connected \<noteq> None" by (simp add: connected_def)
  have q: "snd (CompleteQueueDeclare connected broker0 ([] @ orphan # [plain])) =
     [DeclarationError ''orphan'']"
    using eval_queues by simp
  have e: "snd (CompleteExchangeDeclare connected broker0 ([] @ bad_exchange # [orders])) =
     [DeclarationError ''audit'']"
    using eval_exchanges by simp
  have qd: "queue_declares (sent broker0 (fst (CompleteQueueDeclare connected broker0 [orphan, plain]))) =
     [''orphan'', ''plain'']"
    using t c by (simp add: orphan_def plain_def)
  have ed: "exchange_declares
     (sent broker0 (fst (CompleteExchangeDeclare connected broker0 [bad_exchange, orders]))) =
     [''audit'', ''orders'']"
    using t c by (simp add: bad_exchange_def orders_def)
  have "snd (CompleteQueueDeclare connected broker0 [orphan, plain]) \<noteq> []"
    using eval_queues by simp
  with t have ne: "\<exists>r \<in> set (queue_outcomes connected broker0 [orphan, plain]). isl r"
    by blast
  from c q e qd ed ne show ?thesis by blast
qed

theorem declare_all_exchanges_first_witness:
  "channel connected \<noteq> None \<and>
   snd (CompleteDeclare connected broker0 [orders_created] [bad_exchange, orders]) =
     [DeclarationError ''audit''] \<and>
   wire (fst (CompleteDeclare connected broker0 [orders_created] [bad_exchange, orders])) =
     [ExchangeDeclare ''audit'', ExchangeDeclare ''orders'', QueueDeclare ''orders.created'',
      QueueBind ''orders.created'' ''orders'' ''created''] \<and>
   sent (fst (CompleteExchangeDeclare connected broker0 [bad_exchange, orders]))
        (fst (CompleteDeclare connected broker0 [orders_created] [bad_exchange, orders])) =
     [QueueDeclare ''orders.created'', QueueBind ''orders.created'' ''orders'' ''created''] \<and>
   snd (CompleteQueueDeclare connected broker0 [orders_created]) =
     [DeclarationError ''orders.created'']"
proof -
  define tail where "tail =
     sent (fst (CompleteExchangeDeclare connected broker0 [bad_exchange, orders]))
          (fst (CompleteDeclare connected broker0 [orders_created] [bad_exchange, orders]))"
  define all where "all =
     wire (fst (CompleteDeclare connected broker0 [orders_created] [bad_exchange, orders]))"
  have c: "channel connected \<noteq> None" by (simp add: connected_def)
  have w0: "wire broker0 = []" by (simp add: broker0_def)
  have m: "map (\<lambda>se. ExchangeDeclare (exchange_name se)) [bad_exchange, orders] =
      [ExchangeDeclare ''audit'', ExchangeDeclare ''orders'']"
    by (simp add: bad_exchange_def orders_def)
  have a: "all = [ExchangeDeclare ''audit'', ExchangeDeclare ''orders'',
      QueueDeclare ''orders.created'', QueueBind ''orders.created'' ''orders'' ''created'']"
    unfolding all_def using eval_all by blast
  from declare_all_exchanges_first [of connected broker0 "[orders_created]"
      "[bad_exchange, orders]"] c
  have "all = wire broker0 @
      map (\<lambda>se. ExchangeDeclare (exchange_name se)) [bad_exchange, orders] @ tail"
    unfolding all_def tail_def by blast
  then have "tail =
      [QueueDeclare ''orders.created'', QueueBind ''orders.created'' ''orders'' ''created'']"
    unfolding a w0 m by simp
  with c eval_all show ?thesis unfolding tail_def by blast
qed

end
